theory Spec2Isabelle
  imports Complex_Main "HOL-Library.Word"
begin

unbundle bit_operations_syntax

section \<open>Errors and the error monad\<close>

text \<open>
  Every \<^verbatim>\<open>throw\<close> of the TypeScript sources, and every exception the JavaScript
  runtime raises on their behalf, is a value of this type:
  \<^item> \<open>NotRIFF\<close>: \<^verbatim>\<open>new Error('Not a RIFF file')\<close> in \<^verbatim>\<open>SF2Parser.parse\<close>;
  \<^item> \<open>NotSoundFont\<close>: \<^verbatim>\<open>new Error('Not a SoundFont file')\<close> in \<^verbatim>\<open>SF2Parser.parse\<close>;
  \<^item> \<open>NoSampleData\<close>: \<^verbatim>\<open>new Error('No sample data found')\<close> in
    \<^verbatim>\<open>SFZConverter.createWavBuffer\<close>;
  \<^item> \<open>RangeError\<close>: a \<^verbatim>\<open>DataView\<close> access outside the buffer, or an
    \<^verbatim>\<open>Int16Array\<close> built over an odd number of bytes;
  \<^item> \<open>TypeError\<close>: a property read on \<^verbatim>\<open>undefined\<close>.
\<close>

datatype error = NotRIFF | NotSoundFont | NoSampleData | RangeError | TypeError

definition bindE :: "error + 'a \<Rightarrow> ('a \<Rightarrow> error + 'b) \<Rightarrow> error + 'b" where
  "bindE m f = (case m of Inl e \<Rightarrow> Inl e | Inr x \<Rightarrow> f x)"

definition isError :: "error + 'a \<Rightarrow> bool" where
  "isError m = (case m of Inl e \<Rightarrow> True | Inr x \<Rightarrow> False)"

section \<open>Data model (types.ts)\<close>

text \<open>
  The interfaces of \<^verbatim>\<open>types.ts\<close>. The field \<^verbatim>\<open>end\<close> of a sample header is
  written \<open>end'\<close> and the field \<^verbatim>\<open>preset\<close> of a preset header \<open>preset'\<close>. The optional \<^verbatim>\<open>data?: Int16Array\<close> is an option: \<open>None\<close> is
  the absent buffer, \<open>Some []\<close> a buffer that is present and has no frames.
  The parser never fills the \<^verbatim>\<open>bags\<close> and \<^verbatim>\<open>generators\<close> fields of the
  interfaces, and the converter never reads them, so they are left out.
\<close>

type_synonym byte = "8 word"

record SF2Sample =
  name :: string
  start :: nat
  end' :: nat
  startLoop :: nat
  endLoop :: nat
  sampleRate :: nat
  originalPitch :: nat
  pitchCorrection :: int
  sampleLink :: nat
  sampleType :: nat
  data :: "16 word list option"

record SF2Generator =
  operator :: nat
  amount :: int

record SF2Bag =
  generatorStart :: nat
  modulatorStart :: nat

record SF2Instrument =
  name :: string
  bagIndex :: nat

record SF2Preset =
  name :: string
  preset' :: nat
  bank :: nat
  bagIndex :: nat
  library :: nat
  genre :: nat
  morphology :: nat

section \<open>DataView\<close>

text \<open>
  An \<^verbatim>\<open>ArrayBuffer\<close> is its list of bytes. A \<^verbatim>\<open>DataView\<close> access of \<open>k\<close>
  bytes at offset \<open>off\<close> raises \<^verbatim>\<open>RangeError\<close> unless \<open>off + k\<close> is within the
  buffer. The numeric argument of a setter is reduced modulo \<open>2 ^ 32\<close> (or \<open>2 ^ 16\<close>)
  by the runtime; here that is the conversion into the word type.
\<close>

definition bytes16 :: "16 word \<Rightarrow> bool \<Rightarrow> byte list" where
  "bytes16 w littleEndian =
     (let le = [ucast w, ucast (drop_bit 8 w)] in if littleEndian then le else rev le)"

definition bytes32 :: "32 word \<Rightarrow> bool \<Rightarrow> byte list" where
  "bytes32 w littleEndian =
     (let le = [ucast w, ucast (drop_bit 8 w), ucast (drop_bit 16 w), ucast (drop_bit 24 w)]
      in if littleEndian then le else rev le)"

definition word16 :: "byte list \<Rightarrow> bool \<Rightarrow> 16 word" where
  "word16 bs littleEndian =
     (let le = (if littleEndian then bs else rev bs)
      in ucast (le ! 0) OR push_bit 8 (ucast (le ! 1)))"

definition word32 :: "byte list \<Rightarrow> bool \<Rightarrow> 32 word" where
  "word32 bs littleEndian =
     (let le = (if littleEndian then bs else rev bs)
      in ucast (le ! 0) OR push_bit 8 (ucast (le ! 1)) OR push_bit 16 (ucast (le ! 2))
         OR push_bit 24 (ucast (le ! 3)))"

definition setBytes :: "byte list \<Rightarrow> nat \<Rightarrow> byte list \<Rightarrow> error + byte list" where
  "setBytes buf off bs =
     (if off + length bs \<le> length buf
      then Inr (take off buf @ bs @ drop (off + length bs) buf)
      else Inl RangeError)"

definition getBytes :: "byte list \<Rightarrow> nat \<Rightarrow> nat \<Rightarrow> error + byte list" where
  "getBytes buf off k =
     (if off + k \<le> length buf then Inr (take k (drop off buf)) else Inl RangeError)"

definition setUint32 :: "byte list \<Rightarrow> nat \<Rightarrow> nat \<Rightarrow> bool \<Rightarrow> error + byte list" where
  "setUint32 buf off v littleEndian = setBytes buf off (bytes32 (of_nat v) littleEndian)"

definition setUint16 :: "byte list \<Rightarrow> nat \<Rightarrow> nat \<Rightarrow> bool \<Rightarrow> error + byte list" where
  "setUint16 buf off v littleEndian = setBytes buf off (bytes16 (of_nat v) littleEndian)"

definition setInt16 :: "byte list \<Rightarrow> nat \<Rightarrow> int \<Rightarrow> bool \<Rightarrow> error + byte list" where
  "setInt16 buf off v littleEndian = setBytes buf off (bytes16 (of_int v) littleEndian)"

definition getUint8 :: "byte list \<Rightarrow> nat \<Rightarrow> error + nat" where
  "getUint8 buf off = bindE (getBytes buf off 1) (\<lambda>bs. Inr (unat (bs ! 0)))"

definition getInt8 :: "byte list \<Rightarrow> nat \<Rightarrow> error + int" where
  "getInt8 buf off = bindE (getBytes buf off 1) (\<lambda>bs. Inr (sint (bs ! 0)))"

definition getUint16 :: "byte list \<Rightarrow> nat \<Rightarrow> bool \<Rightarrow> error + nat" where
  "getUint16 buf off littleEndian =
     bindE (getBytes buf off 2) (\<lambda>bs. Inr (unat (word16 bs littleEndian)))"

definition getInt16 :: "byte list \<Rightarrow> nat \<Rightarrow> bool \<Rightarrow> error + int" where
  "getInt16 buf off littleEndian =
     bindE (getBytes buf off 2) (\<lambda>bs. Inr (sint (word16 bs littleEndian)))"

definition getUint32 :: "byte list \<Rightarrow> nat \<Rightarrow> bool \<Rightarrow> error + nat" where
  "getUint32 buf off littleEndian =
     bindE (getBytes buf off 4) (\<lambda>bs. Inr (unat (word32 bs littleEndian)))"

section \<open>SFZConverter.createWavBuffer\<close>

text \<open>
  The loop \<^verbatim>\<open>for (let i = 0; i < sample.data.length; i++) view.setInt16(44 + i * 2,
  sample.data[i], true)\<close>, started at \<open>i\<close>. An element of an \<^verbatim>\<open>Int16Array\<close> is
  a 16-bit word, read as the signed number \<open>sint\<close>.
\<close>

function writeSamples :: "byte list \<Rightarrow> 16 word list \<Rightarrow> nat \<Rightarrow> error + byte list" where
  "writeSamples buf d i =
     (if i < length d
      then bindE (setInt16 buf (44 + i * 2) (sint (d ! i)) True) (\<lambda>buf'. writeSamples buf' d (i + 1))
      else Inr buf)"
  by pat_completeness auto
termination
  by (relation "measure (\<lambda>(buf, d, i). length d - i)") auto

text \<open>
  \<^verbatim>\<open>if (!sample.data) throw new Error('No sample data found')\<close>: a typed array is
  an object, and an object is truthy whatever its length, so the test fails for the
  absent buffer only. The buffer \<^verbatim>\<open>new ArrayBuffer(44 + sample.data.length * 2)\<close> is
  zero-filled.
\<close>

definition createWavBuffer :: "SF2Sample \<Rightarrow> error + byte list" where
  "createWavBuffer sample =
     (case data sample of
        None \<Rightarrow> Inl NoSampleData
      | Some d \<Rightarrow>
          bindE (setUint32 (replicate (44 + length d * 2) 0) 0 0x52494646 False) (\<lambda>b1.
          bindE (setUint32 b1 4 (36 + length d * 2) True) (\<lambda>b2.
          bindE (setUint32 b2 8 0x57415645 False) (\<lambda>b3.
          bindE (setUint32 b3 12 0x666d7420 False) (\<lambda>b4.
          bindE (setUint32 b4 16 16 True) (\<lambda>b5.
          bindE (setUint16 b5 20 1 True) (\<lambda>b6.
          bindE (setUint16 b6 22 1 True) (\<lambda>b7.
          bindE (setUint32 b7 24 (sampleRate sample) True) (\<lambda>b8.
          bindE (setUint32 b8 28 (sampleRate sample * 2) True) (\<lambda>b9.
          bindE (setUint16 b9 32 2 True) (\<lambda>b10.
          bindE (setUint16 b10 34 16 True) (\<lambda>b11.
          bindE (setUint32 b11 36 0x64617461 False) (\<lambda>b12.
          bindE (setUint32 b12 40 (length d * 2) True) (\<lambda>b13.
          writeSamples b13 d 0))))))))))))))"

section \<open>JavaScript strings and numbers\<close>

text \<open>
  Every name the converter sees was built by \<^verbatim>\<open>readString\<close> from single bytes
  (\<^verbatim>\<open>String.fromCharCode\<close> of a value below 256), so a string is a list of 8-bit
  characters. Of the code units below 256, \<^verbatim>\<open>String.prototype.trim\<close> strips
  TAB, LF, VT, FF, CR, SPACE and NBSP (U+00A0) from both ends.
\<close>

definition isWhiteSpace :: "char \<Rightarrow> bool" where
  "isWhiteSpace c \<longleftrightarrow> (of_char c :: nat) \<in> {9, 10, 11, 12, 13, 32, 160}"

definition trim :: "string \<Rightarrow> string" where
  "trim s = rev (dropWhile isWhiteSpace (rev (dropWhile isWhiteSpace s)))"

text \<open>
  A number that holds an integer prints in a template literal as its decimal digits,
  with a leading minus sign when negative.
\<close>

definition digitChar :: "nat \<Rightarrow> char" where
  "digitChar n = ''0123456789'' ! n"

fun showNat :: "nat \<Rightarrow> string" where
  "showNat n = (if n < 10 then [digitChar n] else showNat (n div 10) @ [digitChar (n mod 10)])"

definition showInt :: "int \<Rightarrow> string" where
  "showInt i = (if i < 0 then CHR ''-'' # showNat (nat (- i)) else showNat (nat i))"

text \<open>
  \<^verbatim>\<open>a || b\<close> where \<^verbatim>\<open>a\<close> is \<^verbatim>\<open>undefined\<close> or a number: the value of \<^verbatim>\<open>b\<close> when
  \<^verbatim>\<open>a\<close> is \<^verbatim>\<open>undefined\<close> and also when it is 0, since 0 is falsy. The right operand
  is evaluated only then, so an error it raises is the result only then.
\<close>

definition jsOr :: "nat option \<Rightarrow> error + nat \<Rightarrow> error + nat" where
  "jsOr a b = (case a of None \<Rightarrow> b | Some n \<Rightarrow> if n = 0 then b else Inr n)"

text \<open>
  \<^verbatim>\<open>xs[i]\<close> for an array \<open>xs\<close> and a number \<open>i\<close> that holds an integer:
  \<^verbatim>\<open>undefined\<close> (here \<open>None\<close>) when \<open>i\<close> is negative or not below the length.
\<close>

definition lookupIdx :: "'a list \<Rightarrow> int \<Rightarrow> 'a option" where
  "lookupIdx xs i = (if 0 \<le> i \<and> nat i < length xs then Some (xs ! nat i) else None)"

text \<open>
  A table of the decoded data is \<^verbatim>\<open>undefined\<close> (here \<open>None\<close>) when the file had no
  sub-chunk for it. Reading \<^verbatim>\<open>.length\<close> or an element of \<^verbatim>\<open>undefined\<close> raises
  \<^verbatim>\<open>TypeError\<close>.
\<close>

definition tableLength :: "'a list option \<Rightarrow> error + nat" where
  "tableLength t = (case t of None \<Rightarrow> Inl TypeError | Some xs \<Rightarrow> Inr (length xs))"

definition tableIdx :: "'a list option \<Rightarrow> int \<Rightarrow> error + 'a option" where
  "tableIdx t i = (case t of None \<Rightarrow> Inl TypeError | Some xs \<Rightarrow> Inr (lookupIdx xs i))"

text \<open>
  A number that does not hold an integer is a double, modelled by the real number it
  stands for. The quotient and the product of two doubles are the exact results rounded to
  the nearest double, to the even one on a tie: \<open>toDouble\<close> rounds to 53 significant bits.
  (Every value the converter computes lies far inside the range of normal doubles, so
  overflow and subnormal numbers are left out.)
\<close>

definition roundEven :: "real \<Rightarrow> int" where
  "roundEven r =
     (let f = \<lfloor>r\<rfloor>; d = r - of_int f
      in if d < 1 / 2 then f else if 1 / 2 < d then f + 1 else if even f then f else f + 1)"

definition toDouble :: "real \<Rightarrow> real" where
  "toDouble x =
     (if x = 0 then 0
      else (let e = \<lfloor>log 2 \<bar>x\<bar>\<rfloor> - 52
            in of_int (roundEven (x * 2 powr (- of_int e))) * 2 powr (of_int e)))"

definition jsDiv :: "real \<Rightarrow> real \<Rightarrow> real" where
  "jsDiv a b = toDouble (a / b)"

definition jsMul :: "real \<Rightarrow> real \<Rightarrow> real" where
  "jsMul a b = toDouble (a * b)"

text \<open>
  What the language leaves to the engine is a parameter of the model:
  \<^item> \<open>mathPow\<close>: the result of \<^verbatim>\<open>Math.pow\<close>, which ECMA-262 calls
    implementation-approximated. The standard fixes the result 1 for the exponent 0, and
    the \<^verbatim>\<open>pow\<close> of the engines' mathematical libraries returns the base for the
    exponent 1; \<open>Math_pow\<close> has these two cases and asks the engine otherwise.
  \<^item> \<open>numberToString\<close>: \<^verbatim>\<open>Number::toString\<close> for a magnitude of \<open>10\<^sup>2\<^sup>1\<close> or more,
    which \<^verbatim>\<open>toFixed\<close> falls back to.
\<close>

record JsEngine =
  mathPow :: "real \<Rightarrow> real \<Rightarrow> real"
  numberToString :: "real \<Rightarrow> string"

definition Math_pow :: "JsEngine \<Rightarrow> real \<Rightarrow> real \<Rightarrow> real" where
  "Math_pow js b e = (if e = 0 then 1 else if e = 1 then b else mathPow js b e)"

text \<open>
  \<^verbatim>\<open>Number.prototype.toFixed(f)\<close> follows ECMA-262: the sign is split off, the
  magnitude is rounded to the nearest multiple of \<open>10\<^sup>-\<^sup>f\<close> (the larger one on a tie),
  and the digits are padded with zeros to at least \<open>f + 1\<close> places before the point
  is set.
\<close>

definition toFixed :: "JsEngine \<Rightarrow> nat \<Rightarrow> real \<Rightarrow> string" where
  "toFixed js f x =
     (let s = (if x < 0 then ''-'' else '''');
          y = (if x < 0 then - x else x)
      in if y \<ge> 10 ^ 21 then s @ numberToString js y
         else
           (let n = nat \<lfloor>y * 10 ^ f + 1 / 2\<rfloor>;
                m = (if n = 0 then ''0'' else showNat n);
                m = (if f \<noteq> 0
                     then (let k = length m;
                               m = (if k \<le> f then replicate (f + 1 - k) (CHR ''0'') @ m else m);
                               k = (if k \<le> f then f + 1 else k)
                           in take (k - f) m @ ''.'' @ drop (k - f) m)
                     else m)
            in s @ m))"

section \<open>SF2Parser (sf2Parser.ts)\<close>

text \<open>
  The parser keeps a cursor \<^verbatim>\<open>this.offset\<close> into the \<^verbatim>\<open>DataView\<close>. Every read advances
  it by the fixed width of what it reads (\<^verbatim>\<open>readString(length)\<close> by \<open>length\<close>, wherever the
  string ends), so the model passes the position of each read explicitly.

  \<^verbatim>\<open>readString\<close> collects the bytes up to the first NUL, or all \<open>length\<close> of them, as
  characters and trims the result; \<open>readChars\<close> is its loop, started at \<open>i\<close>.
\<close>

function readChars :: "byte list \<Rightarrow> nat \<Rightarrow> nat \<Rightarrow> nat \<Rightarrow> error + string" where
  "readChars view off len i =
     (if i < len
      then bindE (getUint8 view (off + i)) (\<lambda>c.
             if c = 0 then Inr []
             else bindE (readChars view off len (i + 1)) (\<lambda>chars. Inr (char_of c # chars)))
      else Inr [])"
  by pat_completeness auto
termination
  by (relation "measure (\<lambda>(view, off, len, i). len - i)") auto

definition readString :: "byte list \<Rightarrow> nat \<Rightarrow> nat \<Rightarrow> error + string" where
  "readString view off len = bindE (readChars view off len 0) (\<lambda>chars. Inr (trim chars))"

text \<open>
  The five record readers share one loop,
  \<^verbatim>\<open>const count = size / width; for (let i = 0; i < count; i++) items.push({...})\<close>.
  The division is the division of numbers, not of integers: \<open>count\<close> is a fraction when
  the width does not divide the size, and the loop runs while \<open>i\<close> is below it. (For a
  size below \<open>2 ^ 32\<close> the rounding of the double does not change the comparison with an
  integer.) No reader compares the size with a multiple of the width.
\<close>

function readItems ::
  "(byte list \<Rightarrow> nat \<Rightarrow> error + 'a) \<Rightarrow> nat \<Rightarrow> byte list \<Rightarrow> nat \<Rightarrow> real \<Rightarrow> nat \<Rightarrow> error + 'a list" where
  "readItems readItem width view off count i =
     (if real i < count
      then bindE (readItem view off) (\<lambda>item.
           bindE (readItems readItem width view (off + width) count (i + 1)) (\<lambda>items.
             Inr (item # items)))
      else Inr [])"
  by pat_completeness auto
termination
  by (relation "measure (\<lambda>(readItem, width, view, off, count, i). nat \<lceil>count\<rceil> - i)")
     (auto, linarith)

definition readPhdrItem :: "byte list \<Rightarrow> nat \<Rightarrow> error + SF2Preset" where
  "readPhdrItem view off =
     bindE (readString view off 20) (\<lambda>nm.
     bindE (getUint16 view (off + 20) True) (\<lambda>presetNo.
     bindE (getUint16 view (off + 22) True) (\<lambda>bnk.
     bindE (getUint16 view (off + 24) True) (\<lambda>bagIdx.
     bindE (getUint32 view (off + 26) True) (\<lambda>lib.
     bindE (getUint32 view (off + 30) True) (\<lambda>gnr.
     bindE (getUint32 view (off + 34) True) (\<lambda>morph.
       Inr \<lparr>SF2Preset.name = nm, preset' = presetNo, bank = bnk, SF2Preset.bagIndex = bagIdx,
            library = lib, genre = gnr, morphology = morph\<rparr>)))))))"

definition readBagItem :: "byte list \<Rightarrow> nat \<Rightarrow> error + SF2Bag" where
  "readBagItem view off =
     bindE (getUint16 view off True) (\<lambda>genStart.
     bindE (getUint16 view (off + 2) True) (\<lambda>modStart.
       Inr \<lparr>generatorStart = genStart, modulatorStart = modStart\<rparr>))"

definition readGenItem :: "byte list \<Rightarrow> nat \<Rightarrow> error + SF2Generator" where
  "readGenItem view off =
     bindE (getUint16 view off True) (\<lambda>oper.
     bindE (getInt16 view (off + 2) True) (\<lambda>amt.
       Inr \<lparr>operator = oper, amount = amt\<rparr>))"

definition readInstItem :: "byte list \<Rightarrow> nat \<Rightarrow> error + SF2Instrument" where
  "readInstItem view off =
     bindE (readString view off 20) (\<lambda>nm.
     bindE (getUint16 view (off + 20) True) (\<lambda>bagIdx.
       Inr \<lparr>SF2Instrument.name = nm, SF2Instrument.bagIndex = bagIdx\<rparr>))"

text \<open>A sample header as \<^verbatim>\<open>readShdr\<close> leaves it: without a data buffer.\<close>

definition readShdrItem :: "byte list \<Rightarrow> nat \<Rightarrow> error + SF2Sample" where
  "readShdrItem view off =
     bindE (readString view off 20) (\<lambda>nm.
     bindE (getUint32 view (off + 20) True) (\<lambda>st.
     bindE (getUint32 view (off + 24) True) (\<lambda>en.
     bindE (getUint32 view (off + 28) True) (\<lambda>stLoop.
     bindE (getUint32 view (off + 32) True) (\<lambda>enLoop.
     bindE (getUint32 view (off + 36) True) (\<lambda>rate.
     bindE (getUint8 view (off + 40)) (\<lambda>pitch.
     bindE (getInt8 view (off + 41)) (\<lambda>corr.
     bindE (getUint16 view (off + 42) True) (\<lambda>link.
     bindE (getUint16 view (off + 44) True) (\<lambda>type.
       Inr \<lparr>SF2Sample.name = nm, start = st, end' = en, startLoop = stLoop, endLoop = enLoop,
            sampleRate = rate, originalPitch = pitch, pitchCorrection = corr,
            sampleLink = link, sampleType = type, data = None\<rparr>))))))))))"

definition readPhdr :: "byte list \<Rightarrow> nat \<Rightarrow> nat \<Rightarrow> error + SF2Preset list" where
  "readPhdr view off sz = readItems readPhdrItem 38 view off (real sz / 38) 0"

definition readBag :: "byte list \<Rightarrow> nat \<Rightarrow> nat \<Rightarrow> error + SF2Bag list" where
  "readBag view off sz = readItems readBagItem 4 view off (real sz / 4) 0"

definition readGen :: "byte list \<Rightarrow> nat \<Rightarrow> nat \<Rightarrow> error + SF2Generator list" where
  "readGen view off sz = readItems readGenItem 4 view off (real sz / 4) 0"

definition readInst :: "byte list \<Rightarrow> nat \<Rightarrow> nat \<Rightarrow> error + SF2Instrument list" where
  "readInst view off sz = readItems readInstItem 22 view off (real sz / 22) 0"

definition readShdr :: "byte list \<Rightarrow> nat \<Rightarrow> nat \<Rightarrow> error + SF2Sample list" where
  "readShdr view off sz = readItems readShdrItem 46 view off (real sz / 46) 0"

text \<open>
  The object \<^verbatim>\<open>pdta\<close> of \<^verbatim>\<open>parsePdta\<close>: a table is \<open>None\<close> until its sub-chunk has
  been read.
\<close>

record Pdta =
  phdr :: "SF2Preset list option"
  pbag :: "SF2Bag list option"
  pgen :: "SF2Generator list option"
  inst :: "SF2Instrument list option"
  ibag :: "SF2Bag list option"
  igen :: "SF2Generator list option"
  shdr :: "SF2Sample list option"

definition emptyPdta :: Pdta where
  "emptyPdta = \<lparr>phdr = None, pbag = None, pgen = None, inst = None, ibag = None, igen = None,
     shdr = None\<rparr>"

text \<open>The \<^verbatim>\<open>switch (id)\<close> of \<^verbatim>\<open>parsePdta\<close>, for a sub-chunk whose body starts at \<open>off\<close>.\<close>

definition readSubChunk :: "byte list \<Rightarrow> string \<Rightarrow> nat \<Rightarrow> nat \<Rightarrow> Pdta \<Rightarrow> error + Pdta" where
  "readSubChunk view ident off sz pdta =
     (if ident = ''phdr'' then bindE (readPhdr view off sz) (\<lambda>items. Inr (pdta\<lparr>phdr := Some items\<rparr>))
      else if ident = ''pbag'' then bindE (readBag view off sz) (\<lambda>items. Inr (pdta\<lparr>Pdta.pbag := Some items\<rparr>))
      else if ident = ''pgen'' then bindE (readGen view off sz) (\<lambda>items. Inr (pdta\<lparr>Pdta.pgen := Some items\<rparr>))
      else if ident = ''inst'' then bindE (readInst view off sz) (\<lambda>items. Inr (pdta\<lparr>inst := Some items\<rparr>))
      else if ident = ''ibag'' then bindE (readBag view off sz) (\<lambda>items. Inr (pdta\<lparr>Pdta.ibag := Some items\<rparr>))
      else if ident = ''igen'' then bindE (readGen view off sz) (\<lambda>items. Inr (pdta\<lparr>Pdta.igen := Some items\<rparr>))
      else if ident = ''shdr'' then bindE (readShdr view off sz) (\<lambda>items. Inr (pdta\<lparr>shdr := Some items\<rparr>))
      else Inr pdta)"

text \<open>
  \<^verbatim>\<open>parsePdta(limit)\<close> with the cursor at \<open>off\<close>: after each sub-chunk the cursor is set
  to \<^verbatim>\<open>next\<close>, the declared end of the sub-chunk, whatever the reader consumed. The
  result is the tables and the cursor at which the loop stopped.
\<close>

function parsePdta :: "byte list \<Rightarrow> nat \<Rightarrow> nat \<Rightarrow> Pdta \<Rightarrow> error + (Pdta \<times> nat)" where
  "parsePdta view limit off pdta =
     (if off < limit
      then bindE (readString view off 4) (\<lambda>ident.
           bindE (getUint32 view (off + 4) True) (\<lambda>sz.
           bindE (readSubChunk view ident (off + 8) sz pdta) (\<lambda>pdta'.
             parsePdta view limit (off + 8 + sz) pdta')))
      else Inr (pdta, off))"
  by pat_completeness auto
termination
  by (relation "measure (\<lambda>(view, limit, off, pdta). limit - off)") auto

text \<open>
  The loop over the sub-chunks of the \<^verbatim>\<open>sdta\<close> list; the result is \<^verbatim>\<open>sdtaOffset\<close>,
  \<^verbatim>\<open>sdtaSize\<close> and the cursor.
\<close>

function sdtaLoop :: "byte list \<Rightarrow> nat \<Rightarrow> nat \<Rightarrow> nat \<Rightarrow> nat \<Rightarrow> error + (nat \<times> nat \<times> nat)" where
  "sdtaLoop view endOffset off sdtaOffset sdtaSize =
     (if off < endOffset
      then bindE (readString view off 4) (\<lambda>subId.
           bindE (getUint32 view (off + 4) True) (\<lambda>subSize.
             if subId = ''smpl''
             then sdtaLoop view endOffset (off + 8 + subSize) (off + 8) subSize
             else sdtaLoop view endOffset (off + 8 + subSize) sdtaOffset sdtaSize))
      else Inr (sdtaOffset, sdtaSize, off))"
  by pat_completeness auto
termination
  by (relation "measure (\<lambda>(view, endOffset, off, sdtaOffset, sdtaSize). endOffset - off)") auto

text \<open>
  The loop \<^verbatim>\<open>while (this.offset < this.view.byteLength)\<close> of \<^verbatim>\<open>parse\<close> over the
  top-level chunks. After a \<^verbatim>\<open>pdta\<close> or \<^verbatim>\<open>sdta\<close> list the cursor stays where the inner
  loop left it; after any other chunk it is set to the chunk's declared end.
\<close>

function chunkLoop :: "byte list \<Rightarrow> nat \<Rightarrow> Pdta \<Rightarrow> nat \<Rightarrow> nat \<Rightarrow> error + (Pdta \<times> nat \<times> nat)" where
  "chunkLoop view off pdta sdtaOffset sdtaSize =
     (if off < length view
      then
        (case readString view off 4 of
           Inl e \<Rightarrow> Inl e
         | Inr chunkId \<Rightarrow>
             (case getUint32 view (off + 4) True of
                Inl e \<Rightarrow> Inl e
              | Inr chunkSize \<Rightarrow>
                  if chunkId = ''LIST''
                  then
                    (case readString view (off + 8) 4 of
                       Inl e \<Rightarrow> Inl e
                     | Inr listType \<Rightarrow>
                         if listType = ''pdta''
                         then
                           (case parsePdta view (off + 8 + chunkSize) (off + 12) emptyPdta of
                              Inl e \<Rightarrow> Inl e
                            | Inr (pdta', off') \<Rightarrow> chunkLoop view off' pdta' sdtaOffset sdtaSize)
                         else if listType = ''sdta''
                         then
                           (case sdtaLoop view (off + 8 + chunkSize) (off + 12) sdtaOffset sdtaSize of
                              Inl e \<Rightarrow> Inl e
                            | Inr (sdtaOffset', sdtaSize', off') \<Rightarrow>
                                chunkLoop view off' pdta sdtaOffset' sdtaSize')
                         else chunkLoop view (off + 8 + chunkSize) pdta sdtaOffset sdtaSize)
                  else chunkLoop view (off + 8 + chunkSize) pdta sdtaOffset sdtaSize))
      else Inr (pdta, sdtaOffset, sdtaSize))"
  by pat_completeness auto
termination
proof (relation "measure (\<lambda>(view, off, pdta, sdtaOffset, sdtaSize). length view - off)")
  have pdta_mono: "parsePdta view limit off pdta = Inr (pdta', off') \<Longrightarrow> off \<le> off'"
    for view limit off pdta pdta' off'
  proof (induction view limit off pdta rule: parsePdta.induct)
    case (1 view limit off pdta)
    show ?case
    proof (cases "off < limit")
      case False
      with "1.prems" show ?thesis by (subst (asm) parsePdta.simps) simp
    next
      case True
      with "1.prems" obtain ident sz p where
        "readString view off 4 = Inr ident" "getUint32 view (off + 4) True = Inr sz"
        "readSubChunk view ident (off + 8) sz pdta = Inr p"
        "parsePdta view limit (off + 8 + sz) p = Inr (pdta', off')"
        by (subst (asm) parsePdta.simps)
           (auto simp: bindE_def simp del: parsePdta.simps split: sum.splits)
      with "1.IH" [OF True] show ?thesis by (fastforce simp del: parsePdta.simps)
    qed
  qed
  have sdta_mono: "sdtaLoop view endOffset off so ss = Inr (so', ss', off') \<Longrightarrow> off \<le> off'"
    for view endOffset off so ss so' ss' off'
  proof (induction view endOffset off so ss rule: sdtaLoop.induct)
    case (1 view endOffset off so ss)
    show ?case
    proof (cases "off < endOffset")
      case False
      with "1.prems" show ?thesis by (subst (asm) sdtaLoop.simps) simp
    next
      case True
      with "1.prems" obtain subId subSize where
        r: "readString view off 4 = Inr subId" "getUint32 view (off + 4) True = Inr subSize"
        and l: "(if subId = ''smpl''
              then sdtaLoop view endOffset (off + 8 + subSize) (off + 8) subSize
              else sdtaLoop view endOffset (off + 8 + subSize) so ss) = Inr (so', ss', off')"
        by (subst (asm) sdtaLoop.simps)
           (auto simp: bindE_def simp del: sdtaLoop.simps split: sum.splits)
      show ?thesis
      proof (cases "subId = ''smpl''")
        case True
        with l have "sdtaLoop view endOffset (off + 8 + subSize) (off + 8) subSize = Inr (so', ss', off')"
          by (simp del: sdtaLoop.simps)
        from "1.IH"(1) [OF \<open>off < endOffset\<close> True this] show ?thesis by simp
      next
        case False
        with l have "sdtaLoop view endOffset (off + 8 + subSize) so ss = Inr (so', ss', off')"
          by (simp del: sdtaLoop.simps)
        from "1.IH"(2) [OF \<open>off < endOffset\<close> False this] show ?thesis by simp
      qed
    qed
  qed
  show "wf (measure (\<lambda>(view, off, pdta, sdtaOffset, sdtaSize). length view - off))"
    by simp
  show "((view, off', pdta', sdtaOffset, sdtaSize), (view, off, pdta, sdtaOffset, sdtaSize))
          \<in> measure (\<lambda>(view, off, pdta, sdtaOffset, sdtaSize). length view - off)"
    if "off < length view"
       "parsePdta view (off + 8 + chunkSize) (off + 12) emptyPdta = Inr x" "(pdta', off') = x"
    for view off pdta sdtaOffset sdtaSize chunkSize x pdta' off'
    using that pdta_mono [of view "off + 8 + chunkSize" "off + 12" emptyPdta pdta' off']
    by (auto simp del: parsePdta.simps)
  show "((view, off', pdta, sdtaOffset', sdtaSize'), (view, off, pdta, sdtaOffset, sdtaSize))
          \<in> measure (\<lambda>(view, off, pdta, sdtaOffset, sdtaSize). length view - off)"
    if "off < length view"
       "sdtaLoop view (off + 8 + chunkSize) (off + 12) sdtaOffset sdtaSize = Inr x"
       "(sdtaOffset', x') = x" "(sdtaSize', off') = x'"
    for view off pdta sdtaOffset sdtaSize chunkSize x sdtaOffset' x' sdtaSize' off'
    using that sdta_mono [of view "off + 8 + chunkSize" "off + 12" sdtaOffset sdtaSize
        sdtaOffset' sdtaSize' off'] by (auto simp del: sdtaLoop.simps)
qed (auto simp del: parsePdta.simps sdtaLoop.simps)

text \<open>
  \<^verbatim>\<open>new Int16Array(this.buffer.slice(begin, end))\<close>: \<^verbatim>\<open>slice\<close> clamps both positions to
  the buffer and returns no bytes when the end is not after the beginning; the typed-array
  constructor raises \<^verbatim>\<open>RangeError\<close> for an odd number of bytes and reads each pair of
  bytes in the byte order of the platform, little-endian here.
\<close>

definition bufferSlice :: "byte list \<Rightarrow> nat \<Rightarrow> nat \<Rightarrow> byte list" where
  "bufferSlice buf begin endIdx =
     (let first = min begin (length buf); final = min endIdx (length buf)
      in take (final - first) (drop first buf))"

fun int16s :: "byte list \<Rightarrow> 16 word list" where
  "int16s (b0 # b1 # bs) = word16 [b0, b1] True # int16s bs"
| "int16s bs = []"

definition newInt16Array :: "byte list \<Rightarrow> error + 16 word list" where
  "newInt16Array bs = (if length bs mod 2 \<noteq> 0 then Inl RangeError else Inr (int16s bs))"

definition attachData :: "byte list \<Rightarrow> nat \<Rightarrow> SF2Sample \<Rightarrow> error + SF2Sample" where
  "attachData view sdtaOffset s =
     (let startIdx = start s * 2; endIdx = end' s * 2
      in bindE (newInt16Array (bufferSlice view (sdtaOffset + startIdx) (sdtaOffset + endIdx)))
           (\<lambda>rawData. Inr (s\<lparr>data := Some rawData\<rparr>)))"

fun mapE :: "('a \<Rightarrow> error + 'b) \<Rightarrow> 'a list \<Rightarrow> error + 'b list" where
  "mapE f [] = Inr []"
| "mapE f (x # xs) = bindE (f x) (\<lambda>y. bindE (mapE f xs) (\<lambda>ys. Inr (y # ys)))"

text \<open>
  What \<^verbatim>\<open>parse\<close> returns and \<^verbatim>\<open>getSFZContent\<close> receives as \<^verbatim>\<open>parsedData\<close>: a
  table whose sub-chunk was never read is \<^verbatim>\<open>undefined\<close>, here \<open>None\<close>; the sample
  table is always an array, since \<^verbatim>\<open>pdta.shdr.map\<close> on a missing sample table raises
  \<^verbatim>\<open>TypeError\<close>.
\<close>

record ParsedData =
  presets :: "SF2Preset list option"
  instruments :: "SF2Instrument list option"
  samples :: "SF2Sample list"
  pbag :: "SF2Bag list option"
  ibag :: "SF2Bag list option"
  pgen :: "SF2Generator list option"
  igen :: "SF2Generator list option"

definition parse :: "byte list \<Rightarrow> error + ParsedData" where
  "parse view =
     bindE (readString view 0 4) (\<lambda>riff.
       if riff \<noteq> ''RIFF'' then Inl NotRIFF
       else
         bindE (getUint32 view 4 True) (\<lambda>riffSize.
         bindE (readString view 8 4) (\<lambda>fb.
           if fb \<noteq> ''sfbk'' then Inl NotSoundFont
           else
             bindE (chunkLoop view 12 emptyPdta 0 0) (\<lambda>(pdta, sdtaOffset, sdtaSize).
               case shdr pdta of
                 None \<Rightarrow> Inl TypeError
               | Some headers \<Rightarrow>
                   bindE (mapE (attachData view sdtaOffset) headers) (\<lambda>smpls.
                     Inr \<lparr>ParsedData.presets = phdr pdta, ParsedData.instruments = inst pdta,
                          ParsedData.samples = smpls, ParsedData.pbag = Pdta.pbag pdta,
                          ParsedData.ibag = Pdta.ibag pdta, ParsedData.pgen = Pdta.pgen pdta,
                          ParsedData.igen = Pdta.igen pdta\<rparr>)))))"

section \<open>SFZConverter (sfzConverter.ts)\<close>

text \<open>The generator ids the converter reads.\<close>

abbreviation (input) OPER_PAN :: nat where "OPER_PAN \<equiv> 17"
abbreviation (input) OPER_ATTACK_VOL_ENV :: nat where "OPER_ATTACK_VOL_ENV \<equiv> 34"
abbreviation (input) OPER_DECAY_VOL_ENV :: nat where "OPER_DECAY_VOL_ENV \<equiv> 36"
abbreviation (input) OPER_SUSTAIN_VOL_ENV :: nat where "OPER_SUSTAIN_VOL_ENV \<equiv> 37"
abbreviation (input) OPER_RELEASE_VOL_ENV :: nat where "OPER_RELEASE_VOL_ENV \<equiv> 38"
abbreviation (input) OPER_INSTRUMENT :: nat where "OPER_INSTRUMENT \<equiv> 41"
abbreviation (input) OPER_KEY_RANGE :: nat where "OPER_KEY_RANGE \<equiv> 43"
abbreviation (input) OPER_VEL_RANGE :: nat where "OPER_VEL_RANGE \<equiv> 44"
abbreviation (input) OPER_COARSE_TUNE :: nat where "OPER_COARSE_TUNE \<equiv> 51"
abbreviation (input) OPER_FINE_TUNE :: nat where "OPER_FINE_TUNE \<equiv> 52"
abbreviation (input) OPER_SAMPLE_ID :: nat where "OPER_SAMPLE_ID \<equiv> 53"
abbreviation (input) OPER_SAMPLE_MODES :: nat where "OPER_SAMPLE_MODES \<equiv> 54"
abbreviation (input) OPER_OVERRIDING_ROOT_KEY :: nat where "OPER_OVERRIDING_ROOT_KEY \<equiv> 58"

text \<open>\<^verbatim>\<open>const tcToSec = (tc: number) => Math.pow(2, tc / 1200)\<close>\<close>

definition tcToSec :: "JsEngine \<Rightarrow> int \<Rightarrow> real" where
  "tcToSec js tc = Math_pow js 2 (jsDiv (of_int tc) 1200)"

text \<open>\<^verbatim>\<open>name.replace(/[^A-Za-z0-9_\-]/g, '_').trim()\<close>\<close>

definition allowedChar :: "char \<Rightarrow> bool" where
  "allowedChar c \<longleftrightarrow>
     (let n = (of_char c :: nat)
      in (65 \<le> n \<and> n \<le> 90) \<or> (97 \<le> n \<and> n \<le> 122) \<or> (48 \<le> n \<and> n \<le> 57)
         \<or> c = CHR ''_'' \<or> c = CHR ''-'')"

definition sanitize :: "string \<Rightarrow> string" where
  "sanitize nm = trim (map (\<lambda>c. if allowedChar c then c else CHR ''_'') nm)"

text \<open>
  A generator map \<^verbatim>\<open>Record<number, number>\<close> is a partial map from operator ids to
  amounts.
\<close>

type_synonym gens = "nat \<rightharpoonup> int"

text \<open>
  The loop of \<^verbatim>\<open>getGenerators\<close>. \<^verbatim>\<open>genList[i].operator\<close> raises \<^verbatim>\<open>TypeError\<close>
  when the generator table is \<^verbatim>\<open>undefined\<close> and when \<open>i\<close> is outside the table, where
  \<^verbatim>\<open>genList[i]\<close> is \<^verbatim>\<open>undefined\<close>.
\<close>

function genLoop :: "SF2Generator list option \<Rightarrow> nat \<Rightarrow> nat \<Rightarrow> gens \<Rightarrow> error + gens" where
  "genLoop genList i endIdx gs =
     (if i < endIdx
      then (case genList of
              None \<Rightarrow> Inl TypeError
            | Some gl \<Rightarrow>
                if i < length gl
                then genLoop genList (i + 1) endIdx (gs(operator (gl ! i) \<mapsto> amount (gl ! i)))
                else Inl TypeError)
      else Inr gs)"
  by pat_completeness auto
termination
  by (relation "measure (\<lambda>(genList, i, endIdx, gs). endIdx - i)") auto

text \<open>
  \<^verbatim>\<open>getGenerators(bags, genList, bagIdx)\<close>. \<^verbatim>\<open>bags.length\<close> raises \<^verbatim>\<open>TypeError\<close> when
  the bag table is \<^verbatim>\<open>undefined\<close>; \<^verbatim>\<open>genList.length\<close> is read only when the next bag is
  missing or starts at 0.
\<close>

definition getGenerators ::
  "SF2Bag list option \<Rightarrow> SF2Generator list option \<Rightarrow> nat \<Rightarrow> error + gens" where
  "getGenerators bags genList bagIdx =
     (case bags of
        None \<Rightarrow> Inl TypeError
      | Some bs \<Rightarrow>
          if bagIdx \<ge> length bs then Inr Map.empty
          else
            (let startIdx = generatorStart (bs ! bagIdx)
             in bindE (jsOr (map_option generatorStart (lookupIdx bs (int bagIdx + 1)))
                        (tableLength genList))
                  (\<lambda>endIdx. genLoop genList startIdx endIdx Map.empty)))"

text \<open>
  The end of a zone range, as \<^verbatim>\<open>getSFZContent\<close> computes it for the preset at
  position \<open>idx\<close> of \<^verbatim>\<open>parsedData.presets\<close> and for the instrument \<open>instId\<close>:
  \<^verbatim>\<open>(parsedData.presets[idx + 1]?.bagIndex) || parsedData.pbag.length\<close>.
\<close>

definition pBagEnd :: "ParsedData \<Rightarrow> int \<Rightarrow> error + nat" where
  "pBagEnd pd idx =
     bindE (tableIdx (presets pd) (idx + 1)) (\<lambda>nxt.
       jsOr (map_option SF2Preset.bagIndex nxt) (tableLength (pbag pd)))"

definition iBagEnd :: "ParsedData \<Rightarrow> int \<Rightarrow> error + nat" where
  "iBagEnd pd instId =
     bindE (tableIdx (instruments pd) (instId + 1)) (\<lambda>nxt.
       jsOr (map_option SF2Instrument.bagIndex nxt) (tableLength (ibag pd)))"

text \<open>
  The test that makes the first zone of a range the global zone, written twice in the
  source: \<^verbatim>\<open>firstPBagGens[OPER_INSTRUMENT] === undefined && pBagEnd > pBagStart\<close>
  for a preset, and the same with \<^verbatim>\<open>OPER_SAMPLE_ID\<close> for an instrument. The global
  layer is the first zone's generator map when the test holds and \<^verbatim>\<open>{}\<close> otherwise.
\<close>

definition firstZoneIsGlobal :: "gens \<Rightarrow> nat \<Rightarrow> nat \<Rightarrow> nat \<Rightarrow> bool" where
  "firstZoneIsGlobal firstGens oper bagStart bagEnd \<longleftrightarrow>
     firstGens oper = None \<and> bagEnd > bagStart"

definition globalGens :: "gens \<Rightarrow> nat \<Rightarrow> nat \<Rightarrow> nat \<Rightarrow> gens" where
  "globalGens firstGens oper bagStart bagEnd =
     (if firstZoneIsGlobal firstGens oper bagStart bagEnd then firstGens else Map.empty)"

text \<open>
  \<^verbatim>\<open>{ ...globalPresetGens, ...pGens, ...globalInstGens, ...iGens }\<close> followed by the
  two range assignments.
\<close>

definition overrideRange :: "nat \<Rightarrow> gens \<Rightarrow> gens \<Rightarrow> gens \<Rightarrow> gens" where
  "overrideRange oper iGens pGens combined =
     (case iGens oper of
        Some v \<Rightarrow> combined(oper \<mapsto> v)
      | None \<Rightarrow> (case pGens oper of Some v \<Rightarrow> combined(oper \<mapsto> v) | None \<Rightarrow> combined))"

definition combineGens :: "gens \<Rightarrow> gens \<Rightarrow> gens \<Rightarrow> gens \<Rightarrow> gens" where
  "combineGens globalPresetGens pGens globalInstGens iGens =
     overrideRange OPER_VEL_RANGE iGens pGens
       (overrideRange OPER_KEY_RANGE iGens pGens
          (globalPresetGens ++ pGens ++ globalInstGens ++ iGens))"

text \<open>The directives of one region, in the order the source appends them.\<close>

definition keyRangeText :: "int option \<Rightarrow> string" where
  "keyRangeText keyRange =
     (case keyRange of
        Some v \<Rightarrow>
          (let lo = v AND 0x7F; hi = drop_bit 8 v AND 0x7F
           in if lo = hi then ''key='' @ showInt lo @ ''\<newline>''
              else ''lokey='' @ showInt lo @ '' hikey='' @ showInt hi @ ''\<newline>'')
      | None \<Rightarrow> ''lokey=0 hikey=127\<newline>'')"

definition velRangeText :: "int option \<Rightarrow> string" where
  "velRangeText velRange =
     (case velRange of
        Some v \<Rightarrow>
          (let lo = v AND 0x7F; hi = drop_bit 8 v AND 0x7F
           in ''lovel='' @ showInt lo @ '' hivel='' @ showInt hi @ ''\<newline>'')
      | None \<Rightarrow> '''')"

definition timeText :: "JsEngine \<Rightarrow> string \<Rightarrow> int option \<Rightarrow> string" where
  "timeText js key tc =
     (case tc of
        Some v \<Rightarrow> key @ ''='' @ toFixed js 4 (tcToSec js v) @ ''\<newline>''
      | None \<Rightarrow> '''')"

text \<open>
  \<^verbatim>\<open>const sustainDb = combined[OPER_SUSTAIN_VOL_ENV] / 10;
  const sustainRatio = Math.pow(10, -sustainDb / 20);\<close> and
  \<^verbatim>\<open>(sustainRatio * 100).toFixed(2)\<close>, each operation rounded to a double.
\<close>

definition sustainText :: "JsEngine \<Rightarrow> int option \<Rightarrow> string" where
  "sustainText js sustain =
     (case sustain of
        Some v \<Rightarrow>
          (let sustainDb = jsDiv (of_int v) 10;
               sustainRatio = Math_pow js 10 (jsDiv (- sustainDb) 20)
           in ''ampeg_sustain='' @ toFixed js 2 (jsMul sustainRatio 100) @ ''\<newline>'')
      | None \<Rightarrow> '''')"

definition panText :: "JsEngine \<Rightarrow> int option \<Rightarrow> string" where
  "panText js pan =
     (case pan of
        Some v \<Rightarrow> ''pan='' @ toFixed js 2 (jsDiv (of_int v) 10) @ ''\<newline>''
      | None \<Rightarrow> '''')"

definition tuningText :: "gens \<Rightarrow> SF2Sample \<Rightarrow> string" where
  "tuningText combined sample =
     (let rootKey = (case combined OPER_OVERRIDING_ROOT_KEY of
                       Some v \<Rightarrow> if v \<noteq> - 1 then v else int (originalPitch sample)
                     | None \<Rightarrow> int (originalPitch sample));
          coarse = (case combined OPER_COARSE_TUNE of Some v \<Rightarrow> v | None \<Rightarrow> 0);
          fine = (case combined OPER_FINE_TUNE of Some v \<Rightarrow> v | None \<Rightarrow> 0);
          tune = coarse * 100 + fine + pitchCorrection sample
      in ''pitch_keycenter='' @ showInt rootKey @ ''\<newline>''
         @ (if tune \<noteq> 0 then ''tune='' @ showInt tune @ ''\<newline>'' else ''''))"

definition loopText :: "gens \<Rightarrow> SF2Sample \<Rightarrow> string" where
  "loopText combined sample =
     (let sampleModes = (case combined OPER_SAMPLE_MODES of Some v \<Rightarrow> v | None \<Rightarrow> 0);
          loopMode = sampleModes AND 0x03
      in if loopMode = 1 \<or> loopMode = 3
         then ''loop_mode=loop_continuous\<newline>''
              @ ''loop_start='' @ showInt (int (startLoop sample) - int (start sample)) @ ''\<newline>''
              @ ''loop_end='' @ showInt (int (endLoop sample) - int (start sample)) @ ''\<newline>''
         else '''')"

definition regionText :: "JsEngine \<Rightarrow> gens \<Rightarrow> SF2Sample \<Rightarrow> string" where
  "regionText js combined sample =
     ''<region>\<newline>''
     @ ''sample='' @ sanitize (SF2Sample.name sample) @ ''.wav\<newline>''
     @ keyRangeText (combined OPER_KEY_RANGE)
     @ velRangeText (combined OPER_VEL_RANGE)
     @ timeText js ''ampeg_attack'' (combined OPER_ATTACK_VOL_ENV)
     @ timeText js ''ampeg_decay'' (combined OPER_DECAY_VOL_ENV)
     @ sustainText js (combined OPER_SUSTAIN_VOL_ENV)
     @ timeText js ''ampeg_release'' (combined OPER_RELEASE_VOL_ENV)
     @ panText js (combined OPER_PAN)
     @ tuningText combined sample
     @ loopText combined sample
     @ ''\<newline>''"

text \<open>
  The body of the instrument-zone loop for zone \<open>ib\<close>: the text so far goes in, the text
  after the zone comes out. A \<^verbatim>\<open>continue\<close> returns the text unchanged.
\<close>

definition instZone ::
  "JsEngine \<Rightarrow> ParsedData \<Rightarrow> gens \<Rightarrow> gens \<Rightarrow> gens \<Rightarrow> nat \<Rightarrow> string \<Rightarrow> error + string" where
  "instZone js pd globalPresetGens pGens globalInstGens ib sfz =
     bindE (getGenerators (ibag pd) (igen pd) ib) (\<lambda>iGens.
       case iGens OPER_SAMPLE_ID of
         None \<Rightarrow> Inr sfz
       | Some sampleId \<Rightarrow>
           (case lookupIdx (samples pd) sampleId of
              None \<Rightarrow> Inr sfz
            | Some sample \<Rightarrow>
                if SF2Sample.name sample = ''EOS'' then Inr sfz
                else Inr (sfz @ regionText js
                            (combineGens globalPresetGens pGens globalInstGens iGens) sample)))"

function instLoop ::
  "JsEngine \<Rightarrow> ParsedData \<Rightarrow> gens \<Rightarrow> gens \<Rightarrow> gens \<Rightarrow> nat \<Rightarrow> nat \<Rightarrow> string \<Rightarrow> error + string" where
  "instLoop js pd globalPresetGens pGens globalInstGens ib iEnd sfz =
     (if ib < iEnd
      then bindE (instZone js pd globalPresetGens pGens globalInstGens ib sfz)
             (\<lambda>sfz'. instLoop js pd globalPresetGens pGens globalInstGens (ib + 1) iEnd sfz')
      else Inr sfz)"
  by pat_completeness auto
termination
  by (relation "measure (\<lambda>(js, pd, gp, p, gi, ib, iEnd, sfz). iEnd - ib)") auto

text \<open>
  The body of the preset-zone loop for zone \<open>pb\<close>. \<^verbatim>\<open>parsedData.instruments[instId]\<close>
  raises \<^verbatim>\<open>TypeError\<close> when the instrument table is \<^verbatim>\<open>undefined\<close>; an index outside
  a table that is there gives \<^verbatim>\<open>undefined\<close> and the zone is skipped.
\<close>

definition presetZone ::
  "JsEngine \<Rightarrow> ParsedData \<Rightarrow> gens \<Rightarrow> nat \<Rightarrow> string \<Rightarrow> error + string" where
  "presetZone js pd globalPresetGens pb sfz =
     bindE (getGenerators (pbag pd) (pgen pd) pb) (\<lambda>pGens.
       case pGens OPER_INSTRUMENT of
         None \<Rightarrow> Inr sfz
       | Some instId \<Rightarrow>
           bindE (tableIdx (instruments pd) instId) (\<lambda>inst'.
             case inst' of
               None \<Rightarrow> Inr sfz
             | Some instrument \<Rightarrow>
                 (let iBagStart = SF2Instrument.bagIndex instrument
                  in bindE (iBagEnd pd instId) (\<lambda>iEnd.
                     bindE (getGenerators (ibag pd) (igen pd) iBagStart) (\<lambda>firstIBagGens.
                       instLoop js pd globalPresetGens pGens
                         (globalGens firstIBagGens OPER_SAMPLE_ID iBagStart iEnd)
                         iBagStart iEnd sfz)))))"

function presetLoop ::
  "JsEngine \<Rightarrow> ParsedData \<Rightarrow> gens \<Rightarrow> nat \<Rightarrow> nat \<Rightarrow> string \<Rightarrow> error + string" where
  "presetLoop js pd globalPresetGens pb pEnd sfz =
     (if pb < pEnd
      then bindE (presetZone js pd globalPresetGens pb sfz)
             (\<lambda>sfz'. presetLoop js pd globalPresetGens (pb + 1) pEnd sfz')
      else Inr sfz)"
  by pat_completeness auto
termination
  by (relation "measure (\<lambda>(js, pd, gp, pb, pEnd, sfz). pEnd - pb)") auto

text \<open>
  The comment lines and the \<^verbatim>\<open><control>\<close> block that open every document.
\<close>

definition sfzHeader :: "SF2Preset \<Rightarrow> string \<Rightarrow> string" where
  "sfzHeader preset outputBase =
     (let presetNameClean = trim (SF2Preset.name preset)
      in ''// '' @ presetNameClean @ ''\<newline>''
         @ ''// Converted from SF2 to SFZ by SF2 to SFZ Studio\<newline>\<newline>''
         @ ''<control>\<newline>''
         @ ''default_path='' @ outputBase @ '' '' @ presetNameClean @ '' Samples\<newline>\<newline>'')"

text \<open>
  \<^verbatim>\<open>getSFZContent(preset, parsedData, outputBase)\<close>. The source finds the next preset
  with \<^verbatim>\<open>parsedData.presets.indexOf(preset)\<close>, which compares object identities; the
  model takes that position as the argument \<open>idx\<close> (\<open>- 1\<close> when the preset is not an
  element of the table).
\<close>

definition getSFZContent ::
  "JsEngine \<Rightarrow> SF2Preset \<Rightarrow> int \<Rightarrow> ParsedData \<Rightarrow> string \<Rightarrow> error + string" where
  "getSFZContent js preset idx pd outputBase =
     (let sfz = sfzHeader preset outputBase;
          pBagStart = SF2Preset.bagIndex preset
      in bindE (pBagEnd pd idx) (\<lambda>pEnd.
         bindE (getGenerators (pbag pd) (pgen pd) pBagStart) (\<lambda>firstPBagGens.
           presetLoop js pd
             (globalGens firstPBagGens OPER_INSTRUMENT pBagStart pEnd) pBagStart pEnd sfz)))"

section \<open>The zone resolver in the specification's words\<close>

text \<open>
  The specification takes the first zone of a preset's or an instrument's range as the
  global zone if and only if it lacks the terminating generator of its level and the range
  holds at least two zones. The definitions below are the resolver with that rule in the
  place of the source's test; everything else is the source's.
\<close>

definition specFirstZoneIsGlobal :: "gens \<Rightarrow> nat \<Rightarrow> nat \<Rightarrow> nat \<Rightarrow> bool" where
  "specFirstZoneIsGlobal firstGens oper bagStart bagEnd \<longleftrightarrow>
     firstGens oper = None \<and> 2 \<le> length [bagStart ..< bagEnd]"

definition specGlobalGens :: "gens \<Rightarrow> nat \<Rightarrow> nat \<Rightarrow> nat \<Rightarrow> gens" where
  "specGlobalGens firstGens oper bagStart bagEnd =
     (if specFirstZoneIsGlobal firstGens oper bagStart bagEnd then firstGens else Map.empty)"

definition specPresetZone ::
  "JsEngine \<Rightarrow> ParsedData \<Rightarrow> gens \<Rightarrow> nat \<Rightarrow> string \<Rightarrow> error + string" where
  "specPresetZone js pd globalPresetGens pb sfz =
     bindE (getGenerators (pbag pd) (pgen pd) pb) (\<lambda>pGens.
       case pGens OPER_INSTRUMENT of
         None \<Rightarrow> Inr sfz
       | Some instId \<Rightarrow>
           bindE (tableIdx (instruments pd) instId) (\<lambda>inst'.
             case inst' of
               None \<Rightarrow> Inr sfz
             | Some instrument \<Rightarrow>
                 (let iBagStart = SF2Instrument.bagIndex instrument
                  in bindE (iBagEnd pd instId) (\<lambda>iEnd.
                     bindE (getGenerators (ibag pd) (igen pd) iBagStart) (\<lambda>firstIBagGens.
                       instLoop js pd globalPresetGens pGens
                         (specGlobalGens firstIBagGens OPER_SAMPLE_ID iBagStart iEnd)
                         iBagStart iEnd sfz)))))"

function specPresetLoop ::
  "JsEngine \<Rightarrow> ParsedData \<Rightarrow> gens \<Rightarrow> nat \<Rightarrow> nat \<Rightarrow> string \<Rightarrow> error + string" where
  "specPresetLoop js pd globalPresetGens pb pEnd sfz =
     (if pb < pEnd
      then bindE (specPresetZone js pd globalPresetGens pb sfz)
             (\<lambda>sfz'. specPresetLoop js pd globalPresetGens (pb + 1) pEnd sfz')
      else Inr sfz)"
  by pat_completeness auto
termination
  by (relation "measure (\<lambda>(js, pd, gp, pb, pEnd, sfz). pEnd - pb)") auto


section \<open>Inputs the theorems are run on\<close>

text \<open>Readers of a returned buffer and the samples the theorems below run on.\<close>

definition wavUint32 :: "error + byte list \<Rightarrow> nat \<Rightarrow> error + nat" where
  "wavUint32 r off = bindE r (\<lambda>buf. getUint32 buf off True)"

definition zeroLengthSample :: SF2Sample where
  "zeroLengthSample = \<lparr>SF2Sample.name = ''Snd'', start = 0, end' = 0, startLoop = 0, endLoop = 0,
     sampleRate = 44100, originalPitch = 60, pitchCorrection = 0, sampleLink = 0, sampleType = 1,
     data = Some []\<rparr>"

definition hugeSample :: SF2Sample where
  "hugeSample = \<lparr>SF2Sample.name = ''Snd'', start = 0, end' = 2 ^ 31, startLoop = 0, endLoop = 0,
     sampleRate = 44100, originalPitch = 60, pitchCorrection = 0, sampleLink = 0, sampleType = 1,
     data = Some (replicate (2 ^ 31) 0)\<rparr>"

definition sample100 :: SF2Sample where
  "sample100 = \<lparr>SF2Sample.name = ''Snd'', start = 0, end' = 100, startLoop = 0, endLoop = 0,
     sampleRate = 44100, originalPitch = 60, pitchCorrection = 0, sampleLink = 0, sampleType = 1,
     data = Some (replicate 100 (-2))\<rparr>"

text \<open>
  Records and decoded tables in the layout a SoundFont has them: every table ends with its
  sentinel record (\<^verbatim>\<open>EOP\<close>, \<^verbatim>\<open>EOI\<close>, \<^verbatim>\<open>EOS\<close>, a last bag and a last generator).
\<close>

definition presetTest :: SF2Preset where
  "presetTest = \<lparr>SF2Preset.name = ''Test'', preset' = 0, bank = 0, SF2Preset.bagIndex = 0,
     library = 0, genre = 0, morphology = 0\<rparr>"

definition presetEmpty :: SF2Preset where
  "presetEmpty = \<lparr>SF2Preset.name = ''Empty'', preset' = 1, bank = 0, SF2Preset.bagIndex = 0,
     library = 0, genre = 0, morphology = 0\<rparr>"

definition presetEOP :: "nat \<Rightarrow> SF2Preset" where
  "presetEOP b = \<lparr>SF2Preset.name = ''EOP'', preset' = 0, bank = 0, SF2Preset.bagIndex = b,
     library = 0, genre = 0, morphology = 0\<rparr>"

definition instTest :: SF2Instrument where
  "instTest = \<lparr>SF2Instrument.name = ''Inst'', SF2Instrument.bagIndex = 0\<rparr>"

definition instEOI :: "nat \<Rightarrow> SF2Instrument" where
  "instEOI b = \<lparr>SF2Instrument.name = ''EOI'', SF2Instrument.bagIndex = b\<rparr>"

definition sampleEOS :: SF2Sample where
  "sampleEOS = \<lparr>SF2Sample.name = ''EOS'', start = 0, end' = 0, startLoop = 0, endLoop = 0,
     sampleRate = 0, originalPitch = 0, pitchCorrection = 0, sampleLink = 0, sampleType = 0,
     data = Some []\<rparr>"

definition bag :: "nat \<Rightarrow> SF2Bag" where
  "bag g = \<lparr>generatorStart = g, modulatorStart = 0\<rparr>"

definition gen :: "nat \<Rightarrow> int \<Rightarrow> SF2Generator" where
  "gen oper amt = \<lparr>operator = oper, amount = amt\<rparr>"


definition pdEmptyFirst :: ParsedData where
  "pdEmptyFirst = \<lparr>presets = Some [presetEmpty, presetTest, presetEOP 1], instruments = Some [instTest, instEOI 1],
     samples = [sample100, sampleEOS], pbag = Some [bag 0, bag 1], ibag = Some [bag 0, bag 1],
     pgen = Some [gen 41 0, gen 0 0], igen = Some [gen 53 0, gen 0 0]\<rparr>"

definition pdDangling :: ParsedData where
  "pdDangling = \<lparr>presets = Some [presetTest, presetEOP 2], instruments = Some [instTest, instEOI 2],
     samples = [sample100, sampleEOS], pbag = Some [bag 0, bag 1, bag 2], ibag = Some [bag 0, bag 1, bag 2],
     pgen = Some [gen 41 7, gen 41 0, gen 0 0], igen = Some [gen 53 9, gen 53 1, gen 0 0]\<rparr>"

text \<open>
  An engine for the runs below: its \<^verbatim>\<open>Math.pow\<close> is the correctly rounded power. None
  of the tables above holds an envelope, sustain or pan generator, so no run below calls
  \<open>mathPow\<close> or \<open>numberToString\<close>.
\<close>

definition roundedEngine :: JsEngine where
  "roundedEngine = \<lparr>mathPow = (\<lambda>b e. toDouble (b powr e)), numberToString = (\<lambda>x. '''')\<rparr>"


text \<open>
  A SoundFont of 194 bytes without the tables of the instrument level: its \<^verbatim>\<open>pdta\<close> list
  holds a \<^verbatim>\<open>phdr\<close> sub-chunk (the preset \<^verbatim>\<open>Test\<close> with its zone at 0 and the sentinel
  \<^verbatim>\<open>EOP\<close> at 1), a \<^verbatim>\<open>pbag\<close> sub-chunk of two zones, a \<^verbatim>\<open>pgen\<close> sub-chunk (an instrument
  generator naming instrument 0 and the last generator) and a \<^verbatim>\<open>shdr\<close> sub-chunk with the
  sentinel \<^verbatim>\<open>EOS\<close>; there is no \<^verbatim>\<open>inst\<close>, \<^verbatim>\<open>ibag\<close> or \<^verbatim>\<open>igen\<close> sub-chunk.
  \<open>pdNoInst\<close> is what \<^verbatim>\<open>parse\<close> returns for it.
\<close>

definition noInstBuffer :: "byte list" where
  "noInstBuffer =
     [0x52, 0x49, 0x46, 0x46,  186, 0, 0, 0,  0x73, 0x66, 0x62, 0x6B,
      0x4C, 0x49, 0x53, 0x54,  174, 0, 0, 0,  0x70, 0x64, 0x74, 0x61,
      0x70, 0x68, 0x64, 0x72,  76, 0, 0, 0,
      0x54, 0x65, 0x73, 0x74, 0, 0, 0, 0, 0, 0, 0, 0, 0, 0, 0, 0, 0, 0, 0, 0,
        0, 0,  0, 0,  0, 0,  0, 0, 0, 0,  0, 0, 0, 0,  0, 0, 0, 0,
      0x45, 0x4F, 0x50, 0, 0, 0, 0, 0, 0, 0, 0, 0, 0, 0, 0, 0, 0, 0, 0, 0,
        0, 0,  0, 0,  1, 0,  0, 0, 0, 0,  0, 0, 0, 0,  0, 0, 0, 0,
      0x70, 0x62, 0x61, 0x67,  8, 0, 0, 0,   0, 0, 0, 0,  1, 0, 0, 0,
      0x70, 0x67, 0x65, 0x6E,  8, 0, 0, 0,   41, 0, 0, 0,  0, 0, 0, 0,
      0x73, 0x68, 0x64, 0x72,  46, 0, 0, 0,
      0x45, 0x4F, 0x53, 0, 0, 0, 0, 0, 0, 0, 0, 0, 0, 0, 0, 0, 0, 0, 0, 0,
        0, 0, 0, 0,  0, 0, 0, 0,  0, 0, 0, 0,  0, 0, 0, 0,  0, 0, 0, 0,
        0,  0,  0, 0,  0, 0]"

definition pdNoInst :: ParsedData where
  "pdNoInst = \<lparr>presets = Some [presetTest, presetEOP 1], instruments = None,
     samples = [sampleEOS], pbag = Some [bag 0, bag 1], ibag = None,
     pgen = Some [gen 41 0, gen 0 0], igen = None\<rparr>"

section \<open>Properties of the sample encoder\<close>

lemma bindE_Inr [simp]: "bindE (Inr x) f = f x" by (simp add: bindE_def)

lemma bindE_Inl [simp]: "bindE (Inl e) f = Inl e" by (simp add: bindE_def)

lemma length_bytes16 [simp]: "length (bytes16 w le) = 2" by (simp add: bytes16_def Let_def)

lemma length_bytes32 [simp]: "length (bytes32 w le) = 4" by (simp add: bytes32_def Let_def)

lemma word16_bytes16 [simp]: "word16 (bytes16 w le) le = w"
  unfolding word16_def bytes16_def Let_def
  by (cases le; simp; rule bit_word_eqI; auto simp: bit_simps)

lemma word32_bytes32 [simp]: "word32 (bytes32 w le) le = w"
proof -
  let ?x = "ucast (ucast w :: byte) OR push_bit 8 (ucast (ucast (drop_bit 8 w) :: byte))
        OR push_bit 16 (ucast (ucast (drop_bit 16 w) :: byte))
        OR push_bit 24 (ucast (ucast (drop_bit 24 w) :: byte)) :: 32 word"
  have "?x = w"
  proof (rule bit_word_eqI)
    fix n assume "n < LENGTH(32)"
    then show "bit ?x n = bit w n"
      by (cases "n < 8"; cases "n < 16"; cases "n < 24"; auto simp add: bit_simps)
  qed
  then show ?thesis
    unfolding word32_def bytes32_def Let_def by (cases le) simp_all
qed

lemma setBytes_zeros:
  "length bs = k \<Longrightarrow> off = length p \<Longrightarrow>
   setBytes (p @ replicate (k + r) 0) off bs = Inr ((p @ bs) @ replicate r 0)"
  by (simp add: setBytes_def)

lemma getBytes_mid:
  "length p = off \<Longrightarrow> length bs = k \<Longrightarrow> getBytes (p @ bs @ r) off k = Inr bs"
  by (simp add: getBytes_def)

declare writeSamples.simps [simp del]

lemma writeSamples_zeros:
  "length p = 44 + i * 2 \<Longrightarrow> i \<le> length d \<Longrightarrow>
   writeSamples (p @ replicate ((length d - i) * 2) 0) d i
     = Inr (p @ concat (map (\<lambda>w. bytes16 w True) (drop i d)))"
proof (induction "length d - i" arbitrary: p i)
  case 0
  then show ?case by (subst writeSamples.simps) simp
next
  case (Suc k)
  then have lt: "i < length d" and k: "length d - (i + 1) = k" by simp_all
  have rep: "replicate ((length d - i) * 2) (0::byte) = replicate (2 + k * 2) 0"
    using Suc(2) by (metis add_2_eq_Suc mult_Suc)
  have w: "setInt16 (p @ replicate ((length d - i) * 2) 0) (44 + i * 2) (sint (d ! i)) True
            = Inr ((p @ bytes16 (d ! i) True) @ replicate (k * 2) 0)"
    unfolding setInt16_def rep using Suc.prems by (intro setBytes_zeros [THEN trans]) simp_all
  have ih: "writeSamples ((p @ bytes16 (d ! i) True) @ replicate ((length d - (i + 1)) * 2) 0) d (i + 1)
     = Inr ((p @ bytes16 (d ! i) True) @ concat (map (\<lambda>w. bytes16 w True) (drop (i + 1) d)))"
    using Suc.prems Suc.hyps(2) lt by (intro Suc.hyps(1)) auto
  have dr: "drop i d = d ! i # drop (i + 1) d" using lt by (simp add: Cons_nth_drop_Suc)
  have "writeSamples (p @ replicate ((length d - i) * 2) 0) d i
          = bindE (setInt16 (p @ replicate ((length d - i) * 2) 0) (44 + i * 2) (sint (d ! i)) True)
              (\<lambda>buf'. writeSamples buf' d (i + 1))"
    by (subst writeSamples.simps) (simp add: lt)
  also have "\<dots> = writeSamples ((p @ bytes16 (d ! i) True) @ replicate (k * 2) 0) d (i + 1)"
    by (simp only: w bindE_Inr)
  also have "\<dots> = Inr ((p @ bytes16 (d ! i) True) @ concat (map (\<lambda>w. bytes16 w True) (drop (i + 1) d)))"
    using ih by (simp only: k)
  finally show ?case by (simp add: dr)
qed

lemma writeSamples_zeros0:
  "length p = 44 \<Longrightarrow>
   writeSamples (p @ replicate (length d * 2) 0) d 0 = Inr (p @ concat (map (\<lambda>w. bytes16 w True) d))"
  using writeSamples_zeros [of p 0 d] by simp

lemma setBytes_zeros_le:
  "off = length p \<Longrightarrow> length bs \<le> m \<Longrightarrow>
   setBytes (p @ replicate m 0) off bs = Inr ((p @ bs) @ replicate (m - length bs) 0)"
  by (simp add: setBytes_def)

lemma setUint32_zeros:
  "off = length p \<Longrightarrow> 4 \<le> m \<Longrightarrow>
   setUint32 (p @ replicate m 0) off v le = Inr ((p @ bytes32 (of_nat v) le) @ replicate (m - 4) 0)"
  unfolding setUint32_def using setBytes_zeros_le [of off p "bytes32 (of_nat v) le" m] by simp

lemma setUint16_zeros:
  "off = length p \<Longrightarrow> 2 \<le> m \<Longrightarrow>
   setUint16 (p @ replicate m 0) off v le = Inr ((p @ bytes16 (of_nat v) le) @ replicate (m - 2) 0)"
  unfolding setUint16_def using setBytes_zeros_le [of off p "bytes16 (of_nat v) le" m] by simp

lemma setUint32_zeros_start:
  "4 \<le> m \<Longrightarrow>
   setUint32 (replicate m 0) 0 v le = Inr (bytes32 (of_nat v) le @ replicate (m - 4) 0)"
  using setUint32_zeros [of 0 "[]" m v le] by simp

lemma createWavBuffer_bytes:
  "data sample = Some d \<Longrightarrow>
   createWavBuffer sample =
     Inr (((((((((((((bytes32 0x52494646 False @ bytes32 (of_nat (36 + length d * 2)) True)
          @ bytes32 0x57415645 False) @ bytes32 0x666d7420 False) @ bytes32 16 True)
          @ bytes16 1 True) @ bytes16 1 True) @ bytes32 (of_nat (sampleRate sample)) True)
          @ bytes32 (of_nat (sampleRate sample * 2)) True) @ bytes16 2 True) @ bytes16 16 True)
          @ bytes32 0x64617461 False) @ bytes32 (of_nat (length d * 2)) True)
          @ concat (map (\<lambda>w. bytes16 w True) d))"
  unfolding createWavBuffer_def
  by (simp add: setUint32_zeros_start setUint32_zeros setUint16_zeros writeSamples_zeros0
        del: append_assoc)

lemma take_drop_concat_bytes16:
  "i < length d \<Longrightarrow>
   take 2 (drop (2 * i) (concat (map (\<lambda>w. bytes16 w True) d))) = bytes16 (d ! i) True"
proof (induction d arbitrary: i)
  case Nil
  then show ?case by simp
next
  case (Cons w ws)
  show ?case
  proof (cases i)
    case 0
    then show ?thesis by simp
  next
    case (Suc j)
    with Cons.prems have "j < length ws" by simp
    from Cons.IH [OF this] Suc show ?thesis by simp
  qed
qed

lemma length_concat_bytes16:
  "length (concat (map (\<lambda>w. bytes16 w True) d)) = 2 * length d"
  by (induction d) simp_all

lemma isError_simps [simp]: "isError (Inl e) = True" "isError (Inr x) = False"
  by (simp_all add: isError_def)

text \<open>
  Claim C5, as the code has it: \<^verbatim>\<open>createWavBuffer\<close> raises an error exactly when the
  sample's data buffer is absent. The header writes and the sample loop never leave the
  buffer, so no \<^verbatim>\<open>RangeError\<close> arises; a buffer that is present is encoded whatever
  its length.
\<close>

theorem C5_fails_iff_data_absent:
  "isError (createWavBuffer sample) \<longleftrightarrow> data sample = None"
proof (cases "data sample")
  case None
  then show ?thesis by (simp add: createWavBuffer_def)
next
  case (Some d)
  then show ?thesis by (simp add: createWavBuffer_bytes)
qed

text \<open>
  Claim C5 as stated counts a present, zero-length buffer as "no data" that must fail.
  On such a sample the code returns the 44 header bytes, a WAV file with an empty
  \<^verbatim>\<open>data\<close> sub-chunk.
\<close>

theorem C5_zero_length_counterexample:
  "createWavBuffer zeroLengthSample =
     Inr [0x52, 0x49, 0x46, 0x46, 36, 0, 0, 0, 0x57, 0x41, 0x56, 0x45, 0x66, 0x6d, 0x74, 0x20,
          16, 0, 0, 0, 1, 0, 1, 0, 0x44, 0xAC, 0, 0, 0x88, 0x58, 1, 0, 2, 0, 16, 0,
          0x64, 0x61, 0x74, 0x61, 0, 0, 0, 0]"
proof -
  have d: "data zeroLengthSample = Some []" and r: "sampleRate zeroLengthSample = 44100"
    by (simp_all add: zeroLengthSample_def)
  show ?thesis
    unfolding createWavBuffer_bytes [OF d] r by (simp add: bytes32_def bytes16_def)
qed

lemma wav_field40:
  "data sample = Some d \<Longrightarrow>
   wavUint32 (createWavBuffer sample) 40 = Inr (unat (of_nat (length d * 2) :: 32 word))"
  unfolding wavUint32_def getUint32_def
  by (simp add: createWavBuffer_bytes getBytes_def)

lemma wav_field4:
  "data sample = Some d \<Longrightarrow>
   wavUint32 (createWavBuffer sample) 4 = Inr (unat (of_nat (36 + length d * 2) :: 32 word))"
  unfolding wavUint32_def getUint32_def
  by (simp add: createWavBuffer_bytes getBytes_def)

text \<open>
  Claim C6 as stated gives the size fields as \<open>2 * n\<close> and \<open>36 + 2 * n\<close> for every
  \<open>n\<close>. \<^verbatim>\<open>setUint32\<close> stores its argument modulo \<open>2 ^ 32\<close>: for a buffer of
  \<open>2 ^ 31\<close> frames the data-size field reads 0, not \<open>2 ^ 32\<close>.
\<close>

theorem C6_huge_counterexample:
  "wavUint32 (createWavBuffer hugeSample) 40 = Inr 0"
proof -
  have d: "data hugeSample = Some (replicate (2 ^ 31) 0)"
    by (simp add: hugeSample_def)
  show ?thesis
    unfolding wav_field40 [OF d] by simp
qed

lemma unat_of_nat32: "unat (of_nat n :: 32 word) = n mod 2 ^ 32"
  unfolding unat_of_nat by simp

text \<open>
  Claim C6, amended: for a sample whose data buffer holds \<open>n\<close> frames,
  \<^verbatim>\<open>createWavBuffer\<close> returns a buffer of exactly \<open>44 + 2 * n\<close> bytes; the
  little-endian u32 at offset 40 is \<open>2 * n\<close> and the one at offset 4 is \<open>36 + 2 * n\<close>,
  both modulo \<open>2 ^ 32\<close>, hence equal to \<open>2 * n\<close> and \<open>36 + 2 * n\<close> whenever
  \<open>36 + 2 * n < 2 ^ 32\<close>; the bytes from offset 44 on are the frames in order, each as
  its two little-endian bytes, and reading a signed little-endian 16-bit integer at
  \<open>44 + 2 * i\<close> gives frame \<open>i\<close> back.
\<close>

theorem C6_wav_layout:
  assumes "data sample = Some d"
  shows "\<exists>buf. createWavBuffer sample = Inr buf
     \<and> length buf = 44 + 2 * length d
     \<and> getUint32 buf 40 True = Inr ((2 * length d) mod 2 ^ 32)
     \<and> getUint32 buf 4 True = Inr ((36 + 2 * length d) mod 2 ^ 32)
     \<and> (36 + 2 * length d < 2 ^ 32 \<longrightarrow>
           getUint32 buf 40 True = Inr (2 * length d) \<and> getUint32 buf 4 True = Inr (36 + 2 * length d))
     \<and> drop 44 buf = concat (map (\<lambda>w. bytes16 w True) d)
     \<and> (\<forall>i < length d. getInt16 buf (44 + 2 * i) True = Inr (sint (d ! i)))"
proof -
  let ?pay = "concat (map (\<lambda>w. bytes16 w True) d)"
  obtain buf where buf: "createWavBuffer sample = Inr buf"
    using createWavBuffer_bytes [OF assms] by blast
  have f40: "getUint32 buf 40 True = Inr ((2 * length d) mod 2 ^ 32)"
    using wav_field40 [OF assms] unfolding wavUint32_def buf unat_of_nat32
    by (simp add: mult.commute)
  have f4: "getUint32 buf 4 True = Inr ((36 + 2 * length d) mod 2 ^ 32)"
    using wav_field4 [OF assms] unfolding wavUint32_def buf unat_of_nat32
    by (simp add: mult.commute)
  have len: "length buf = 44 + 2 * length d"
    using buf unfolding createWavBuffer_bytes [OF assms] by (auto simp: length_concat_bytes16)
  have pay: "drop 44 buf = ?pay"
    using buf unfolding createWavBuffer_bytes [OF assms] by auto
  have smp: "getInt16 buf (44 + 2 * i) True = Inr (sint (d ! i))" if "i < length d" for i
  proof -
    have "take 2 (drop (44 + 2 * i) buf) = bytes16 (d ! i) True"
      using take_drop_concat_bytes16 [OF that] pay by (metis add.commute drop_drop)
    then show ?thesis
      using that len by (simp add: getInt16_def getBytes_def)
  qed
  show ?thesis
    using buf len f40 f4 pay smp by simp
qed

text \<open>
  The scenario of the specification: 100 frames give 244 bytes, a data-size field of 200
  and a RIFF size field of 236.
\<close>

theorem C6_wav_layout_witness:
  "data sample100 = Some (replicate 100 (- 2))
   \<and> (\<exists>buf. createWavBuffer sample100 = Inr buf \<and> length buf = 244
        \<and> getUint32 buf 40 True = Inr 200 \<and> getUint32 buf 4 True = Inr 236
        \<and> getInt16 buf 46 True = Inr (- 2))"
proof -
  have d: "data sample100 = Some (replicate 100 (- 2))"
    by (simp add: sample100_def)
  from C6_wav_layout [OF d] obtain buf where
    b: "createWavBuffer sample100 = Inr buf" "length buf = 244"
       "getUint32 buf 40 True = Inr 200" "getUint32 buf 4 True = Inr 236"
    and s: "\<forall>i < 100. getInt16 buf (44 + 2 * i) True = Inr (sint (replicate 100 (- 2 :: 16 word) ! i))"
    by auto
  have "getInt16 buf (44 + 2 * 1) True = Inr (sint (replicate 100 (- 2 :: 16 word) ! 1))"
    by (rule s [rule_format]) simp
  then have "getInt16 buf 46 True = Inr (- 2)" by simp
  with d b show ?thesis by blast
qed

section \<open>Properties of the parser\<close>

declare readChars.simps [simp del] readItems.simps [simp del] parsePdta.simps [simp del]
  sdtaLoop.simps [simp del] chunkLoop.simps [simp del]

lemma getBytes_ok: "off + k \<le> length buf \<Longrightarrow> getBytes buf off k = Inr (take k (drop off buf))"
  by (simp add: getBytes_def)




lemma get_ok:
  "off + 1 \<le> length buf \<Longrightarrow> \<exists>v. getUint8 buf off = Inr v"
  "off + 1 \<le> length buf \<Longrightarrow> \<exists>v. getInt8 buf off = Inr v"
  "off + 2 \<le> length buf \<Longrightarrow> \<exists>v. getUint16 buf off le = Inr v"
  "off + 2 \<le> length buf \<Longrightarrow> \<exists>v. getInt16 buf off le = Inr v"
  "off + 4 \<le> length buf \<Longrightarrow> \<exists>v. getUint32 buf off le = Inr v"
  unfolding getUint8_def getInt8_def getUint16_def getInt16_def getUint32_def
  by (simp_all add: getBytes_def)

lemma readChars_ok:
  "off + len \<le> length view \<Longrightarrow> \<exists>s. readChars view off len i = Inr s"
proof (induction view off len i rule: readChars.induct)
  case (1 view off len i)
  show ?case
  proof (cases "i < len")
    case False
    then show ?thesis by (subst readChars.simps) simp
  next
    case True
    with "1.prems" obtain c where c: "getUint8 view (off + i) = Inr c"
      using get_ok(1) [of "off + i" view] by auto
    show ?thesis
    proof (cases "c = 0")
      case True
      with c \<open>i < len\<close> show ?thesis by (subst readChars.simps) simp
    next
      case False
      from "1.IH" [OF \<open>i < len\<close> False "1.prems"] obtain s where
        "readChars view off len (i + 1) = Inr s" ..
      with c False \<open>i < len\<close> show ?thesis by (subst readChars.simps) simp
    qed
  qed
qed


lemma readString_ok: "off + len \<le> length view \<Longrightarrow> \<exists>s. readString view off len = Inr s"
  unfolding readString_def using readChars_ok [of off len view 0] by auto



lemma readPhdrItem_ok: "off + 38 \<le> length view \<Longrightarrow> \<exists>x. readPhdrItem view off = Inr x"
proof -
  assume a: "off + 38 \<le> length view"
  obtain nm where 1: "readString view off 20 = Inr nm"
    using readString_ok [of off 20 view] a by auto
  obtain v1 where 2: "getUint16 view (off + 20) True = Inr v1"
    using get_ok(3) [of "off + 20" view] a by auto
  obtain v2 where 3: "getUint16 view (off + 22) True = Inr v2"
    using get_ok(3) [of "off + 22" view] a by auto
  obtain v3 where 4: "getUint16 view (off + 24) True = Inr v3"
    using get_ok(3) [of "off + 24" view] a by auto
  obtain v4 where 5: "getUint32 view (off + 26) True = Inr v4"
    using get_ok(5) [of "off + 26" view] a by auto
  obtain v5 where 6: "getUint32 view (off + 30) True = Inr v5"
    using get_ok(5) [of "off + 30" view] a by auto
  obtain v6 where 7: "getUint32 view (off + 34) True = Inr v6"
    using get_ok(5) [of "off + 34" view] a by auto
  show ?thesis
    by (simp add: readPhdrItem_def 1 2 3 4 5 6 7)
qed

lemma readBagItem_ok: "off + 4 \<le> length view \<Longrightarrow> \<exists>x. readBagItem view off = Inr x"
proof -
  assume a: "off + 4 \<le> length view"
  obtain v1 where 1: "getUint16 view off True = Inr v1"
    using get_ok(3) [of off view] a by auto
  obtain v2 where 2: "getUint16 view (off + 2) True = Inr v2"
    using get_ok(3) [of "off + 2" view] a by auto
  from 1 2 show ?thesis
    by (simp add: readBagItem_def)
qed

lemma readGenItem_ok: "off + 4 \<le> length view \<Longrightarrow> \<exists>x. readGenItem view off = Inr x"
proof -
  assume a: "off + 4 \<le> length view"
  obtain v1 where 1: "getUint16 view off True = Inr v1"
    using get_ok(3) [of off view] a by auto
  obtain v2 where 2: "getInt16 view (off + 2) True = Inr v2"
    using get_ok(4) [of "off + 2" view] a by auto
  from 1 2 show ?thesis
    by (simp add: readGenItem_def)
qed

lemma readInstItem_ok: "off + 22 \<le> length view \<Longrightarrow> \<exists>x. readInstItem view off = Inr x"
proof -
  assume a: "off + 22 \<le> length view"
  obtain nm where 1: "readString view off 20 = Inr nm"
    using readString_ok [of off 20 view] a by auto
  obtain v1 where 2: "getUint16 view (off + 20) True = Inr v1"
    using get_ok(3) [of "off + 20" view] a by auto
  show ?thesis
    by (simp add: readInstItem_def 1 2)
qed

lemma readShdrItem_ok: "off + 46 \<le> length view \<Longrightarrow> \<exists>x. readShdrItem view off = Inr x"
proof -
  assume a: "off + 46 \<le> length view"
  obtain nm where 1: "readString view off 20 = Inr nm"
    using readString_ok [of off 20 view] a by auto
  obtain v1 where 2: "getUint32 view (off + 20) True = Inr v1"
    using get_ok(5) [of "off + 20" view] a by auto
  obtain v2 where 3: "getUint32 view (off + 24) True = Inr v2"
    using get_ok(5) [of "off + 24" view] a by auto
  obtain v3 where 4: "getUint32 view (off + 28) True = Inr v3"
    using get_ok(5) [of "off + 28" view] a by auto
  obtain v4 where 5: "getUint32 view (off + 32) True = Inr v4"
    using get_ok(5) [of "off + 32" view] a by auto
  obtain v5 where 6: "getUint32 view (off + 36) True = Inr v5"
    using get_ok(5) [of "off + 36" view] a by auto
  obtain v6 where 7: "getUint8 view (off + 40) = Inr v6"
    using get_ok(1) [of "off + 40" view] a by auto
  obtain v7 where 8: "getInt8 view (off + 41) = Inr v7"
    using get_ok(2) [of "off + 41" view] a by auto
  obtain v8 where 9: "getUint16 view (off + 42) True = Inr v8"
    using get_ok(3) [of "off + 42" view] a by auto
  obtain v9 where 10: "getUint16 view (off + 44) True = Inr v9"
    using get_ok(3) [of "off + 44" view] a by auto
  show ?thesis
    by (simp add: readShdrItem_def 1 2 3 4 5 6 7 8 9 10)
qed

lemma below_count: "0 < w \<Longrightarrow> real i < real sz / real w \<longleftrightarrow> i < (sz + w - 1) div w"
proof -
  assume w: "0 < w"
  have "real i < real sz / real w \<longleftrightarrow> real i * real w < real sz"
    using w by (simp add: pos_less_divide_eq)
  also have "\<dots> \<longleftrightarrow> i * w < sz"
    by (metis of_nat_less_iff of_nat_mult)
  also have "\<dots> \<longleftrightarrow> i < (sz + w - 1) div w"
  proof
    assume "i * w < sz"
    then have "(i + 1) * w \<le> sz + w - 1" using w by (simp add: algebra_simps)
    then have "i + 1 \<le> (sz + w - 1) div w"
      using w by (metis div_le_mono div_mult_self_is_m)
    then show "i < (sz + w - 1) div w" by simp
  next
    assume "i < (sz + w - 1) div w"
    then have "i + 1 \<le> (sz + w - 1) div w" by simp
    then have "(i + 1) * w \<le> (sz + w - 1) div w * w" by (rule mult_le_mono1)
    also have "\<dots> \<le> sz + w - 1" by simp
    finally show "i * w < sz" using w by (simp add: algebra_simps)
  qed
  finally show ?thesis .
qed

lemma readItems_ok:
  assumes w: "0 < w"
    and item: "\<And>p. p + w \<le> length view \<Longrightarrow> \<exists>x. readItem view p = Inr x"
  shows "i \<le> (sz + w - 1) div w \<Longrightarrow> off + ((sz + w - 1) div w - i) * w \<le> length view \<Longrightarrow>
    \<exists>items. readItems readItem w view off (real sz / real w) i = Inr items
       \<and> length items = (sz + w - 1) div w - i"
proof (induction "(sz + w - 1) div w - i" arbitrary: i off)
  case 0
  then have "\<not> real i < real sz / real w"
    using below_count [OF w, of i sz] by simp
  with 0 show ?case by (subst readItems.simps) simp
next
  case (Suc k)
  then have lt: "i < (sz + w - 1) div w" by simp
  then have c: "real i < real sz / real w"
    using below_count [OF w, of i sz] by simp
  have d: "(sz + w - 1) div w - i = Suc ((sz + w - 1) div w - (i + 1))"
    using lt by simp
  from Suc.prems(2) have "off + w \<le> length view"
    unfolding d by simp
  from item [OF this] obtain x where x: "readItem view off = Inr x" ..
  have "\<exists>items. readItems readItem w view (off + w) (real sz / real w) (i + 1) = Inr items
       \<and> length items = (sz + w - 1) div w - (i + 1)"
  proof (rule Suc.hyps(1))
    show "k = (sz + w - 1) div w - (i + 1)" using Suc.hyps(2) by simp
    show "i + 1 \<le> (sz + w - 1) div w" using lt by simp
    show "off + w + ((sz + w - 1) div w - (i + 1)) * w \<le> length view"
      using Suc.prems(2) unfolding d by (simp add: algebra_simps)
  qed
  then obtain items where
    "readItems readItem w view (off + w) (real sz / real w) (i + 1) = Inr items"
    "length items = (sz + w - 1) div w - (i + 1)" by blast
  with x c lt show ?case
    by (subst readItems.simps) simp
qed


lemma readPhdr_ok:
  assumes "off + 38 * ((sz + 37) div 38) \<le> length view"
  shows "\<exists>items. readPhdr view off sz = Inr items \<and> length items = (sz + 37) div 38"
proof -
  have "\<exists>items. readItems readPhdrItem 38 view off (real sz / real (38::nat)) 0 = Inr items
          \<and> length items = (sz + 38 - 1) div 38 - 0"
  proof (rule readItems_ok)
    show "(0::nat) < 38" by simp
    show "\<exists>x. readPhdrItem view p = Inr x" if "p + 38 \<le> length view" for p
      using that by (rule readPhdrItem_ok)
    show "0 \<le> (sz + 38 - 1) div 38" by simp
    show "off + ((sz + 38 - 1) div 38 - 0) * 38 \<le> length view"
      using assms by (simp add: ac_simps)
  qed
  then show ?thesis by (simp add: readPhdr_def ac_simps)
qed

lemma readBag_ok:
  assumes "off + 4 * ((sz + 3) div 4) \<le> length view"
  shows "\<exists>items. readBag view off sz = Inr items \<and> length items = (sz + 3) div 4"
proof -
  have "\<exists>items. readItems readBagItem 4 view off (real sz / real (4::nat)) 0 = Inr items
          \<and> length items = (sz + 4 - 1) div 4 - 0"
  proof (rule readItems_ok)
    show "(0::nat) < 4" by simp
    show "\<exists>x. readBagItem view p = Inr x" if "p + 4 \<le> length view" for p
      using that by (rule readBagItem_ok)
    show "0 \<le> (sz + 4 - 1) div 4" by simp
    show "off + ((sz + 4 - 1) div 4 - 0) * 4 \<le> length view"
      using assms by (simp add: ac_simps)
  qed
  then show ?thesis by (simp add: readBag_def ac_simps)
qed

lemma readGen_ok:
  assumes "off + 4 * ((sz + 3) div 4) \<le> length view"
  shows "\<exists>items. readGen view off sz = Inr items \<and> length items = (sz + 3) div 4"
proof -
  have "\<exists>items. readItems readGenItem 4 view off (real sz / real (4::nat)) 0 = Inr items
          \<and> length items = (sz + 4 - 1) div 4 - 0"
  proof (rule readItems_ok)
    show "(0::nat) < 4" by simp
    show "\<exists>x. readGenItem view p = Inr x" if "p + 4 \<le> length view" for p
      using that by (rule readGenItem_ok)
    show "0 \<le> (sz + 4 - 1) div 4" by simp
    show "off + ((sz + 4 - 1) div 4 - 0) * 4 \<le> length view"
      using assms by (simp add: ac_simps)
  qed
  then show ?thesis by (simp add: readGen_def ac_simps)
qed

lemma readInst_ok:
  assumes "off + 22 * ((sz + 21) div 22) \<le> length view"
  shows "\<exists>items. readInst view off sz = Inr items \<and> length items = (sz + 21) div 22"
proof -
  have "\<exists>items. readItems readInstItem 22 view off (real sz / real (22::nat)) 0 = Inr items
          \<and> length items = (sz + 22 - 1) div 22 - 0"
  proof (rule readItems_ok)
    show "(0::nat) < 22" by simp
    show "\<exists>x. readInstItem view p = Inr x" if "p + 22 \<le> length view" for p
      using that by (rule readInstItem_ok)
    show "0 \<le> (sz + 22 - 1) div 22" by simp
    show "off + ((sz + 22 - 1) div 22 - 0) * 22 \<le> length view"
      using assms by (simp add: ac_simps)
  qed
  then show ?thesis by (simp add: readInst_def ac_simps)
qed

lemma readShdr_ok:
  assumes "off + 46 * ((sz + 45) div 46) \<le> length view"
  shows "\<exists>items. readShdr view off sz = Inr items \<and> length items = (sz + 45) div 46"
proof -
  have "\<exists>items. readItems readShdrItem 46 view off (real sz / real (46::nat)) 0 = Inr items
          \<and> length items = (sz + 46 - 1) div 46 - 0"
  proof (rule readItems_ok)
    show "(0::nat) < 46" by simp
    show "\<exists>x. readShdrItem view p = Inr x" if "p + 46 \<le> length view" for p
      using that by (rule readShdrItem_ok)
    show "0 \<le> (sz + 46 - 1) div 46" by simp
    show "off + ((sz + 46 - 1) div 46 - 0) * 46 \<le> length view"
      using assms by (simp add: ac_simps)
  qed
  then show ?thesis by (simp add: readShdr_def ac_simps)
qed

lemmas reader_ok = readPhdr_ok readBag_ok readGen_ok readInst_ok readShdr_ok



lemmas parse_eval = parse_def readString_def readChars.simps getUint8_def getUint16_def
  getUint32_def getBytes_def word16_def word32_def chunkLoop.simps parsePdta.simps
  sdtaLoop.simps readSubChunk_def readPhdr_def readBag_def readGen_def readInst_def readShdr_def
  readItems.simps readBagItem_def emptyPdta_def trim_def isWhiteSpace_def char_of_eq_iff
  Let_def bindE_def




lemma newInt16Array_error:
  "newInt16Array bs = Inl e \<longleftrightarrow> e = RangeError \<and> odd (length bs)"
  by (auto simp: newInt16Array_def)










section \<open>Properties of the converter\<close>

declare showNat.simps [simp del]

lemma showNat_digit: "n < 10 \<Longrightarrow> showNat n = [digitChar n]"
  by (subst showNat.simps) simp

lemma showNat_step: "10 \<le> n \<Longrightarrow> showNat n = showNat (n div 10) @ [digitChar (n mod 10)]"
  by (subst showNat.simps) simp





lemma replaced_allowed: "allowedChar (if allowedChar c then c else CHR ''_'')"
  by (simp add: allowedChar_def)




lemmas data_defs = presetTest_def presetEmpty_def presetEOP_def instTest_def instEOI_def
  sampleEOS_def sample100_def bag_def gen_def

lemmas eval_defs = getSFZContent_def sfzHeader_def pBagEnd_def iBagEnd_def jsOr_def lookupIdx_def
  tableLength_def tableIdx_def
  getGenerators_def globalGens_def firstZoneIsGlobal_def presetZone_def instZone_def
  combineGens_def overrideRange_def regionText_def keyRangeText_def velRangeText_def
  timeText_def sustainText_def panText_def tuningText_def loopText_def
  trim_def sanitize_def allowedChar_def isWhiteSpace_def showInt_def showNat_step showNat_digit
  digitChar_def Let_def bindE_def

declare genLoop.simps [simp del] instLoop.simps [simp del] presetLoop.simps [simp del]
  specPresetLoop.simps [simp del]

lemmas loop_simps = genLoop.simps instLoop.simps presetLoop.simps

lemma roundEven_of_int [simp]: "roundEven (of_int m) = m"
  by (simp add: roundEven_def)

lemma toDouble_exact:
  assumes "x \<noteq> 0"
    and "2 powr (of_int e) \<le> \<bar>x\<bar>" and "\<bar>x\<bar> < 2 powr (of_int (e + 1))"
    and "x * 2 powr (of_int (52 - e)) = of_int m"
  shows "toDouble x = x"
proof -
  from assms(1) have pos: "0 < \<bar>x\<bar>" by simp
  have fl: "\<lfloor>log 2 \<bar>x\<bar>\<rfloor> = e"
    using assms(2,3) floor_log_eq_powr_iff [OF pos, of 2 e] by simp
  have "toDouble x = of_int (roundEven (x * 2 powr (of_int (52 - e)))) * 2 powr (of_int (e - 52))"
    using assms(1) by (simp add: toDouble_def fl Let_def)
  also have "\<dots> = x * 2 powr (of_int (52 - e)) * 2 powr (of_int (e - 52))"
    by (simp only: assms(4) roundEven_of_int)
  also have "\<dots> = x * 2 powr (of_int (52 - e) + of_int (e - 52))"
    by (simp only: powr_add mult.assoc)
  also have "\<dots> = x" by simp
  finally show ?thesis .
qed

lemma toDouble_0 [simp]: "toDouble 0 = 0"
  by (simp add: toDouble_def)

lemma toDouble_1: "toDouble 1 = 1"
  by (rule toDouble_exact [where e = 0 and m = "2 ^ 52"]) simp_all

lemma toDouble_50: "toDouble 50 = 50"
  by (rule toDouble_exact [where e = 5 and m = "50 * 2 ^ 47"]) simp_all

lemma toDouble_minus_50: "toDouble (- 50) = - 50"
  by (rule toDouble_exact [where e = 5 and m = "- 50 * 2 ^ 47"]) simp_all

lemma toDouble_100: "toDouble 100 = 100"
  by (rule toDouble_exact [where e = 6 and m = "100 * 2 ^ 46"]) simp_all









lemma zone_end_next:
  "presets pd = Some ps \<Longrightarrow> lookupIdx ps (idx + 1) = Some nxt \<Longrightarrow>
   SF2Preset.bagIndex nxt \<noteq> 0 \<Longrightarrow> pBagEnd pd idx = Inr (SF2Preset.bagIndex nxt)"
  "presets pd = Some ps \<Longrightarrow> lookupIdx ps (idx + 1) = None \<Longrightarrow>
   pBagEnd pd idx = tableLength (pbag pd)"
  "presets pd = Some ps \<Longrightarrow> lookupIdx ps (idx + 1) = Some nxt \<Longrightarrow>
   SF2Preset.bagIndex nxt = 0 \<Longrightarrow> pBagEnd pd idx = tableLength (pbag pd)"
  by (simp_all add: pBagEnd_def jsOr_def tableIdx_def bindE_def)

text \<open>
  Claim C3 at a next record whose start index is 0. The first preset of \<open>pdEmptyFirst\<close>
  has no zone: the next preset starts at zone 0 as well. The claim gives the zone range
  end 0; the code falls back to the length of the zone table, 2, and the document of the
  empty preset carries the region of the preset after it. In \<^verbatim>\<open>getGenerators\<close> the
  same fallback gives a first zone without generators the whole generator table.
\<close>

theorem C3_zero_start_zone_end:
  "tableIdx (presets pdEmptyFirst) 1 = Inr (Some presetTest)
   \<and> SF2Preset.bagIndex presetTest = 0
   \<and> pBagEnd pdEmptyFirst 0 = Inr 2
   \<and> getSFZContent roundedEngine presetEmpty 0 pdEmptyFirst ''Bank'' =
       Inr ''// Empty\<newline>// Converted from SF2 to SFZ by SF2 to SFZ Studio\<newline>\<newline><control>\<newline>default_path=Bank Empty Samples\<newline>\<newline><region>\<newline>sample=Snd.wav\<newline>lokey=0 hikey=127\<newline>pitch_keycenter=60\<newline>\<newline>''
   \<and> getGenerators (Some [bag 0, bag 0, bag 1]) (Some [gen 17 5, gen 0 0]) 0 = Inr (Map.empty(17 \<mapsto> 5, 0 \<mapsto> 0))"
  by (simp add: pdEmptyFirst_def data_defs eval_defs loop_simps)








lemma instZone_prefix:
  "instZone js pd gp p gi ib sfz = Inr out \<Longrightarrow> \<exists>rest. out = sfz @ rest"
  unfolding instZone_def
  by (cases "getGenerators (ibag pd) (igen pd) ib")
     (auto split: option.splits if_splits)

lemma instLoop_prefix:
  "instLoop js pd gp p gi ib iEnd sfz = Inr out \<Longrightarrow> \<exists>rest. out = sfz @ rest"
proof (induction js pd gp p gi ib iEnd sfz rule: instLoop.induct)
  case (1 js pd gp p gi ib iEnd sfz)
  show ?case
  proof (cases "ib < iEnd")
    case False
    with "1.prems" show ?thesis by (simp add: instLoop.simps)
  next
    case True
    with "1.prems" obtain mid where
      z: "instZone js pd gp p gi ib sfz = Inr mid" and
      l: "instLoop js pd gp p gi (ib + 1) iEnd mid = Inr out"
      by (subst (asm) instLoop.simps) (cases "instZone js pd gp p gi ib sfz"; simp)
    from instZone_prefix [OF z] obtain r1 where "mid = sfz @ r1" ..
    moreover from "1.IH" [OF True l] obtain r2 where "out = mid @ r2" ..
    ultimately show ?thesis by simp
  qed
qed

lemma presetZone_prefix:
  "presetZone js pd gp pb sfz = Inr out \<Longrightarrow> \<exists>rest. out = sfz @ rest"
  unfolding presetZone_def Let_def
  by (auto split: option.splits sum.splits simp: bindE_def dest: instLoop_prefix)

lemma presetLoop_prefix:
  "presetLoop js pd gp pb pEnd sfz = Inr out \<Longrightarrow> \<exists>rest. out = sfz @ rest"
proof (induction js pd gp pb pEnd sfz rule: presetLoop.induct)
  case (1 js pd gp pb pEnd sfz)
  show ?case
  proof (cases "pb < pEnd")
    case False
    with "1.prems" show ?thesis by (simp add: presetLoop.simps)
  next
    case True
    with "1.prems" obtain mid where
      z: "presetZone js pd gp pb sfz = Inr mid" and
      l: "presetLoop js pd gp (pb + 1) pEnd mid = Inr out"
      by (subst (asm) presetLoop.simps) (cases "presetZone js pd gp pb sfz"; simp)
    from presetZone_prefix [OF z] obtain r1 where "mid = sfz @ r1" ..
    moreover from "1.IH" [OF True l] obtain r2 where "out = mid @ r2" ..
    ultimately show ?thesis by simp
  qed
qed

lemma presetLoop_all_skipped:
  "(\<And>pb' t. pb \<le> pb' \<Longrightarrow> pb' < pEnd \<Longrightarrow> presetZone js pd gp pb' t = Inr t) \<Longrightarrow>
   presetLoop js pd gp pb pEnd sfz = Inr sfz"
proof (induction js pd gp pb pEnd sfz rule: presetLoop.induct)
  case (1 js pd gp pb pEnd sfz)
  show ?case
  proof (cases "pb < pEnd")
    case False
    then show ?thesis by (simp add: presetLoop.simps)
  next
    case True
    have z: "presetZone js pd gp pb sfz = Inr sfz"
      using "1.prems" [of pb sfz] True by simp
    have "presetLoop js pd gp (pb + 1) pEnd sfz = Inr sfz"
      using "1.prems" by (intro "1.IH" [OF True]) simp_all
    with z True show ?thesis by (subst presetLoop.simps) simp
  qed
qed

text \<open>
  Claim C8, as the code has it. A preset zone whose instrument generator names an index
  outside the instrument table leaves the text as it was and raises no error when the
  parsed file has an instrument table; when it has none (\<^verbatim>\<open>parse\<close> leaves
  \<^verbatim>\<open>instruments\<close> undefined for a file without \<^verbatim>\<open>inst\<close> sub-chunk) the zone raises
  \<^verbatim>\<open>TypeError\<close>. An instrument zone whose sampleID generator names an index outside the
  sample table or the sample named \<^verbatim>\<open>EOS\<close> leaves the text as it was and raises no error.
  Every text \<^verbatim>\<open>getSFZContent\<close> returns starts with the comment lines and the
  \<^verbatim>\<open><control>\<close> block with its \<^verbatim>\<open>default_path\<close> directive, and when every zone of the
  preset is skipped the returned text is exactly that header.
\<close>

theorem C8_dangling_references_skipped:
  "(getGenerators (pbag pd) (pgen pd) pb = Inr pGens \<and> pGens OPER_INSTRUMENT = Some instId
      \<and> instruments pd = Some insts \<and> (instId < 0 \<or> int (length insts) \<le> instId)
      \<longrightarrow> presetZone js pd globalPresetGens pb sfz = Inr sfz)
   \<and> (getGenerators (pbag pd) (pgen pd) pb = Inr pGens \<and> pGens OPER_INSTRUMENT = Some instId
      \<and> instruments pd = None
      \<longrightarrow> presetZone js pd globalPresetGens pb sfz = Inl TypeError)
   \<and> (getGenerators (ibag pd) (igen pd) ib = Inr iGens \<and> iGens OPER_SAMPLE_ID = Some sampleId
      \<and> (sampleId < 0 \<or> int (length (samples pd)) \<le> sampleId
           \<or> SF2Sample.name (samples pd ! nat sampleId) = ''EOS'')
      \<longrightarrow> instZone js pd globalPresetGens pGens' globalInstGens ib sfz = Inr sfz)
   \<and> (getSFZContent js preset idx pd outputBase = Inr out
      \<longrightarrow> (\<exists>rest. out = sfzHeader preset outputBase @ rest))
   \<and> (pBagEnd pd idx = Inr pEnd
      \<and> getGenerators (pbag pd) (pgen pd) (SF2Preset.bagIndex preset) = Inr firstPBagGens
      \<and> (\<forall>pb' t. SF2Preset.bagIndex preset \<le> pb' \<and> pb' < pEnd \<longrightarrow>
            presetZone js pd
              (globalGens firstPBagGens OPER_INSTRUMENT (SF2Preset.bagIndex preset) pEnd)
              pb' t = Inr t)
      \<longrightarrow> getSFZContent js preset idx pd outputBase = Inr (sfzHeader preset outputBase))
   \<and> sfzHeader preset outputBase =
        ''// '' @ trim (SF2Preset.name preset) @ ''\<newline>''
        @ ''// Converted from SF2 to SFZ by SF2 to SFZ Studio\<newline>\<newline>''
        @ ''<control>\<newline>''
        @ ''default_path='' @ outputBase @ '' '' @ trim (SF2Preset.name preset)
        @ '' Samples\<newline>\<newline>''"
proof -
  have a: "presetZone js pd globalPresetGens pb sfz = Inr sfz"
    if "getGenerators (pbag pd) (pgen pd) pb = Inr pGens" "pGens OPER_INSTRUMENT = Some instId"
       "instruments pd = Some insts" "instId < 0 \<or> int (length insts) \<le> instId"
    using that by (auto simp: presetZone_def tableIdx_def lookupIdx_def)
  have a': "presetZone js pd globalPresetGens pb sfz = Inl TypeError"
    if "getGenerators (pbag pd) (pgen pd) pb = Inr pGens" "pGens OPER_INSTRUMENT = Some instId"
       "instruments pd = None"
    using that by (simp add: presetZone_def tableIdx_def)
  have b: "instZone js pd globalPresetGens pGens' globalInstGens ib sfz = Inr sfz"
    if "getGenerators (ibag pd) (igen pd) ib = Inr iGens" "iGens OPER_SAMPLE_ID = Some sampleId"
       "sampleId < 0 \<or> int (length (samples pd)) \<le> sampleId
           \<or> SF2Sample.name (samples pd ! nat sampleId) = ''EOS''"
    using that by (auto simp: instZone_def lookupIdx_def)
  have c: "\<exists>rest. out = sfzHeader preset outputBase @ rest"
    if "getSFZContent js preset idx pd outputBase = Inr out"
    using that unfolding getSFZContent_def Let_def
    by (auto simp: bindE_def split: sum.splits dest: presetLoop_prefix)
  have d: "getSFZContent js preset idx pd outputBase = Inr (sfzHeader preset outputBase)"
    if "pBagEnd pd idx = Inr pEnd"
       "getGenerators (pbag pd) (pgen pd) (SF2Preset.bagIndex preset) = Inr firstPBagGens"
       "\<forall>pb' t. SF2Preset.bagIndex preset \<le> pb' \<and> pb' < pEnd \<longrightarrow>
            presetZone js pd
              (globalGens firstPBagGens OPER_INSTRUMENT (SF2Preset.bagIndex preset) pEnd)
              pb' t = Inr t"
    using that by (simp add: getSFZContent_def Let_def presetLoop_all_skipped)
  have e: "sfzHeader preset outputBase =
        ''// '' @ trim (SF2Preset.name preset) @ ''\<newline>''
        @ ''// Converted from SF2 to SFZ by SF2 to SFZ Studio\<newline>\<newline>''
        @ ''<control>\<newline>''
        @ ''default_path='' @ outputBase @ '' '' @ trim (SF2Preset.name preset)
        @ '' Samples\<newline>\<newline>''"
    by (simp add: sfzHeader_def Let_def)
  from a a' b c d e show ?thesis by blast
qed

text \<open>
  In \<open>pdDangling\<close> the first preset zone names instrument 7 of 2, the second names an
  instrument whose zones name sample 9 of 2 and the \<^verbatim>\<open>EOS\<close> sample: the document is
  the header alone. In \<open>pdNoInst\<close> the preset zone names instrument 0 and there is no
  instrument table.
\<close>

theorem C8_dangling_references_skipped_witness:
  "presetZone roundedEngine pdDangling Map.empty 0 ''x'' = Inr ''x''
   \<and> presetZone roundedEngine pdNoInst Map.empty 0 ''x'' = Inl TypeError
   \<and> instZone roundedEngine pdDangling Map.empty (Map.empty(41 \<mapsto> 0)) Map.empty 0 ''x'' = Inr ''x''
   \<and> instZone roundedEngine pdDangling Map.empty (Map.empty(41 \<mapsto> 0)) Map.empty 1 ''x'' = Inr ''x''
   \<and> getSFZContent roundedEngine presetTest 0 pdDangling ''Bank'' =
       Inr ''// Test\<newline>// Converted from SF2 to SFZ by SF2 to SFZ Studio\<newline>\<newline><control>\<newline>default_path=Bank Test Samples\<newline>\<newline>''"
proof -
  note ev = pdDangling_def pdNoInst_def data_defs jsOr_def lookupIdx_def tableLength_def
    tableIdx_def getGenerators_def bindE_def loop_simps
  have p0: "getGenerators (pbag pdDangling) (pgen pdDangling) 0 = Inr (Map.empty(41 \<mapsto> 7))"
    and i0: "getGenerators (ibag pdDangling) (igen pdDangling) 0 = Inr (Map.empty(53 \<mapsto> 9))"
    and i1: "getGenerators (ibag pdDangling) (igen pdDangling) 1 = Inr (Map.empty(53 \<mapsto> 1))"
    and q0: "getGenerators (pbag pdNoInst) (pgen pdNoInst) 0 = Inr (Map.empty(41 \<mapsto> 0))"
    by (simp_all add: ev)
  have n: "instruments pdDangling = Some [instTest, instEOI 2]" "length (samples pdDangling) = 2"
    "SF2Sample.name (samples pdDangling ! 1) = ''EOS''"
    "SF2Preset.bagIndex presetTest = 0" "pBagEnd pdDangling 0 = Inr 2"
    "instruments pdNoInst = None"
    by (simp_all add: pdDangling_def pdNoInst_def data_defs pBagEnd_def jsOr_def lookupIdx_def
          tableIdx_def tableLength_def bindE_def)
  have a: "presetZone roundedEngine pdDangling Map.empty 0 ''x'' = Inr ''x''"
    using C8_dangling_references_skipped [where pd = pdDangling and pb = 0
        and pGens = "Map.empty(41 \<mapsto> 7)" and instId = 7 and js = roundedEngine
        and insts = "[instTest, instEOI 2]"
        and globalPresetGens = Map.empty and sfz = "''x''"] p0 n
    by simp
  have a': "presetZone roundedEngine pdNoInst Map.empty 0 ''x'' = Inl TypeError"
    using C8_dangling_references_skipped [where pd = pdNoInst and pb = 0
        and pGens = "Map.empty(41 \<mapsto> 0)" and instId = 0 and js = roundedEngine
        and globalPresetGens = Map.empty and sfz = "''x''"] q0 n
    by simp
  have b: "instZone roundedEngine pdDangling Map.empty (Map.empty(41 \<mapsto> 0)) Map.empty 0 ''x'' = Inr ''x''"
    using C8_dangling_references_skipped [where pd = pdDangling and ib = 0
        and iGens = "Map.empty(53 \<mapsto> 9)" and sampleId = 9 and js = roundedEngine
        and globalPresetGens = Map.empty and pGens' = "Map.empty(41 \<mapsto> 0)"
        and globalInstGens = Map.empty and sfz = "''x''"] i0 n
    by simp
  have c: "instZone roundedEngine pdDangling Map.empty (Map.empty(41 \<mapsto> 0)) Map.empty 1 ''x'' = Inr ''x''"
    using C8_dangling_references_skipped [where pd = pdDangling and ib = 1
        and iGens = "Map.empty(53 \<mapsto> 1)" and sampleId = 1 and js = roundedEngine
        and globalPresetGens = Map.empty and pGens' = "Map.empty(41 \<mapsto> 0)"
        and globalInstGens = Map.empty and sfz = "''x''"] i1 n
    by simp
  have z: "presetZone roundedEngine pdDangling gp pb' t = Inr t" if "pb' < 2" for gp pb' t
  proof -
    from that consider "pb' = 0" | "pb' = 1" by linarith
    then show ?thesis
      by cases (simp_all add: pdDangling_def data_defs eval_defs loop_simps)
  qed
  have d: "getSFZContent roundedEngine presetTest 0 pdDangling ''Bank''
            = Inr (sfzHeader presetTest ''Bank'')"
    using C8_dangling_references_skipped [where pd = pdDangling and js = roundedEngine
        and preset = presetTest and idx = 0 and outputBase = "''Bank''" and pEnd = 2
        and firstPBagGens = "Map.empty(41 \<mapsto> 7)"] p0 n z
    by simp
  have h: "sfzHeader presetTest ''Bank'' = ''// Test\<newline>// Converted from SF2 to SFZ by SF2 to SFZ Studio\<newline>\<newline><control>\<newline>default_path=Bank Test Samples\<newline>\<newline>''"
    by (simp add: sfzHeader_def trim_def isWhiteSpace_def presetTest_def)
  from a a' b c d h show ?thesis by simp
qed

text \<open>
  Claim C8 as stated lets every preset zone that names a missing instrument pass without
  an error. \<open>noInstBuffer\<close> is a file \<^verbatim>\<open>parse\<close> accepts; it has no \<^verbatim>\<open>inst\<close> sub-chunk,
  its preset \<^verbatim>\<open>Test\<close> has one zone, and that zone names instrument 0. The conversion
  of the preset raises \<^verbatim>\<open>TypeError\<close> and returns no text.
\<close>

theorem C8_missing_table_counterexample:
  "parse noInstBuffer = Inr pdNoInst
   \<and> tableIdx (presets pdNoInst) 0 = Inr (Some presetTest)
   \<and> instruments pdNoInst = None
   \<and> getGenerators (pbag pdNoInst) (pgen pdNoInst) 0 = Inr (Map.empty(41 \<mapsto> 0))
   \<and> getSFZContent roundedEngine presetTest 0 pdNoInst ''Bank'' = Inl TypeError"
proof -
  have "parse noInstBuffer = Inr pdNoInst"
    by (simp add: noInstBuffer_def pdNoInst_def data_defs parse_eval readPhdrItem_def
          readGenItem_def readShdrItem_def getInt16_def getInt8_def attachData_def
          newInt16Array_def bufferSlice_def)
  moreover have "getSFZContent roundedEngine presetTest 0 pdNoInst ''Bank'' = Inl TypeError"
    by (simp add: pdNoInst_def data_defs eval_defs loop_simps)
  moreover have "getGenerators (pbag pdNoInst) (pgen pdNoInst) 0 = Inr (Map.empty(41 \<mapsto> 0))"
    by (simp add: pdNoInst_def data_defs eval_defs loop_simps)
  ultimately show ?thesis
    by (simp add: pdNoInst_def tableIdx_def lookupIdx_def)
qed

text \<open>
  Claim C9, for every engine: \<open>tcToSec 0 = 1\<close> and \<open>tcToSec 1200 = 2\<close> (printed with
  four decimals as 1.0000 and 2.0000), a sustain of 0 centibels prints as 100.00, a pan of
  500 as 50.00 and a pan of -500 as -50.00. At these inputs every quotient and product is
  an integer that a double holds exactly, and \<^verbatim>\<open>Math.pow\<close> is called with the exponents 0
  and 1 only.
\<close>

theorem C9_numeric_fixed_points:
  "tcToSec js 0 = 1 \<and> tcToSec js 1200 = 2
   \<and> timeText js ''ampeg_attack'' (Some 0) = ''ampeg_attack=1.0000\<newline>''
   \<and> timeText js ''ampeg_attack'' (Some 1200) = ''ampeg_attack=2.0000\<newline>''
   \<and> sustainText js (Some 0) = ''ampeg_sustain=100.00\<newline>''
   \<and> panText js (Some 500) = ''pan=50.00\<newline>''
   \<and> panText js (Some (- 500)) = ''pan=-50.00\<newline>''"
proof -
  have tc: "tcToSec js 0 = 1" "tcToSec js 1200 = 2"
    by (simp_all add: tcToSec_def jsDiv_def Math_pow_def toDouble_1)
  have "timeText js ''ampeg_attack'' (Some 0) = ''ampeg_attack=1.0000\<newline>''"
    "timeText js ''ampeg_attack'' (Some 1200) = ''ampeg_attack=2.0000\<newline>''"
    by (simp_all add: timeText_def tc toFixed_def Let_def showNat_step showNat_digit digitChar_def)
  moreover have "sustainText js (Some 0) = ''ampeg_sustain=100.00\<newline>''"
    by (simp add: sustainText_def jsDiv_def jsMul_def Math_pow_def toDouble_100 toFixed_def Let_def showNat_step showNat_digit digitChar_def)
  moreover have "panText js (Some 500) = ''pan=50.00\<newline>''"
    "panText js (Some (- 500)) = ''pan=-50.00\<newline>''"
    by (simp_all add: panText_def jsDiv_def toDouble_50 toDouble_minus_50 toFixed_def Let_def showNat_step showNat_digit digitChar_def)
  ultimately show ?thesis using tc by simp
qed



end
